theory Spec2Isabelle
  imports Complex_Main "HOL-Library.Sublist" "HOL-Library.Multiset"
begin

section \<open>JavaScript values\<close>

text \<open>
  The two screens of the application handle values of TypeScript type \<open>any\<close>: the raw
  pack records of the storage layer and whatever \<open>JSON.parse\<close> returns. They are
  modelled by one datatype. Numbers are the integers (exact below \<open>2^53\<close>) and
  \<open>NaN\<close>; strings are lists of 8-bit characters; an object is the list of its own
  enumerable properties in the order \<open>Object.keys\<close> and \<open>for ... in\<close> visit
  them; an array is the same list, its index properties first. Property getters,
  prototypes, functions and symbols are outside the model.
\<close>

datatype jsval =
    JUndefined
  | JNull
  | JBool bool
  | JNum int
  | JNaN
  | JStr string
  | JObj "(string \<times> jsval) list"
  | JArr "(string \<times> jsval) list"

text \<open>ToBoolean: what \<open>if (v)\<close>, \<open>!v\<close>, \<open>a || b\<close> and \<open>a && b\<close> test.\<close>

fun truthy :: "jsval \<Rightarrow> bool" where
  "truthy JUndefined = False"
| "truthy JNull = False"
| "truthy (JBool b) = b"
| "truthy (JNum n) = (n \<noteq> 0)"
| "truthy JNaN = False"
| "truthy (JStr s) = (s \<noteq> [])"
| "truthy (JObj ps) = True"
| "truthy (JArr ps) = True"

fun typeof :: "jsval \<Rightarrow> string" where
  "typeof JUndefined = ''undefined''"
| "typeof JNull = ''object''"
| "typeof (JBool b) = ''boolean''"
| "typeof (JNum n) = ''number''"
| "typeof JNaN = ''number''"
| "typeof (JStr s) = ''string''"
| "typeof (JObj ps) = ''object''"
| "typeof (JArr ps) = ''object''"

text \<open>\<open>a || b\<close>\<close>

definition or_else :: "jsval \<Rightarrow> jsval \<Rightarrow> jsval" where
  "or_else a b = (if truthy a then a else b)"

subsection \<open>Decimal digits\<close>

definition digit_char :: "nat \<Rightarrow> char" where
  "digit_char d = char_of (of_char (CHR ''0'') + d)"

text \<open>The decimal numeral of a number that is not negative.\<close>

function digits :: "int \<Rightarrow> string" where
  "digits n = (if n < 10 then [digit_char (nat n)]
               else digits (n div 10) @ [digit_char (nat (n mod 10))])"
  by pat_completeness auto
termination
  by (relation "measure nat") auto

declare digits.simps [simp del]

definition dec :: "nat \<Rightarrow> string" where
  "dec n = digits (int n)"

definition int_to_string :: "int \<Rightarrow> string" where
  "int_to_string n = (if n < 0 then CHR ''-'' # digits (- n) else digits n)"

subsection \<open>ToString\<close>

text \<open>
  The conversion applied by \<open>+=\<close> on a string, by a template literal and by
  \<open>Array.prototype.join\<close>. An array prints its elements separated by commas, with
  \<open>null\<close> and \<open>undefined\<close> elements printed as the empty string.
\<close>

fun is_digit :: "char \<Rightarrow> bool" where
  "is_digit c = (of_char (CHR ''0'') \<le> (of_char c :: nat) \<and> (of_char c :: nat) \<le> of_char (CHR ''9''))"

text \<open>A canonical array index: a decimal numeral without a leading zero.\<close>

definition is_index :: "string \<Rightarrow> bool" where
  "is_index k = (k \<noteq> [] \<and> list_all is_digit k \<and> (k = ''0'' \<or> hd k \<noteq> CHR ''0''))"

fun join_with :: "string \<Rightarrow> string list \<Rightarrow> string" where
  "join_with sep [] = []"
| "join_with sep [x] = x"
| "join_with sep (x # y # ys) = x @ sep @ join_with sep (y # ys)"

fun to_string :: "jsval \<Rightarrow> string"
  and elems_to_strings :: "(string \<times> jsval) list \<Rightarrow> string list" where
  "to_string JUndefined = ''undefined''"
| "to_string JNull = ''null''"
| "to_string (JBool b) = (if b then ''true'' else ''false'')"
| "to_string (JNum n) = int_to_string n"
| "to_string JNaN = ''NaN''"
| "to_string (JStr s) = s"
| "to_string (JObj ps) = ''[object Object]''"
| "to_string (JArr ps) = join_with '','' (elems_to_strings ps)"
| "elems_to_strings [] = []"
| "elems_to_strings ((k, v) # ps) =
     (if is_index k
      then (case v of JUndefined \<Rightarrow> [] | JNull \<Rightarrow> [] | _ \<Rightarrow> to_string v) # elems_to_strings ps
      else elems_to_strings ps)"

subsection \<open>Property access\<close>

text \<open>
  \<open>v[k]\<close> and \<open>v.k\<close>. Reading a property of \<open>null\<close> or \<open>undefined\<close> throws a
  TypeError, which is the result \<open>None\<close>. A missing property reads as \<open>undefined\<close>.
\<close>

definition index_of :: "string \<Rightarrow> nat" where
  "index_of k = foldl (\<lambda>a c. 10 * a + (of_char c - of_char (CHR ''0''))) 0 k"

fun get_prop :: "jsval \<Rightarrow> string \<Rightarrow> jsval option" where
  "get_prop JUndefined k = None"
| "get_prop JNull k = None"
| "get_prop (JObj ps) k = Some (case map_of ps k of None \<Rightarrow> JUndefined | Some v \<Rightarrow> v)"
| "get_prop (JArr ps) k =
     Some (case map_of ps k of
             None \<Rightarrow> if k = ''length'' then JNum (int (length (filter (\<lambda>p. is_index (fst p)) ps)))
                     else JUndefined
           | Some v \<Rightarrow> v)"
| "get_prop (JStr s) k =
     Some (if k = ''length'' then JNum (int (length s))
           else if is_index k \<and> index_of k < length s then JStr [s ! index_of k]
           else JUndefined)"
| "get_prop v k = Some JUndefined"

text \<open>\<open>v?.k\<close>: \<open>undefined\<close> when \<open>v\<close> is \<open>null\<close> or \<open>undefined\<close>.\<close>

definition get_opt :: "jsval \<Rightarrow> string \<Rightarrow> jsval" where
  "get_opt v k = (case get_prop v k of None \<Rightarrow> JUndefined | Some x \<Rightarrow> x)"

text \<open>
  \<open>v.k = x\<close> on an object or array, for a key that is not an array index (the code
  assigns \<open>name\<close> and \<open>downloaded_at\<close> only): an existing property keeps its
  place, a new one is added last. On \<open>null\<close> or \<open>undefined\<close>, and (the modules being
  strict code) on a primitive, the assignment throws a TypeError.
\<close>

fun upsert :: "(string \<times> jsval) list \<Rightarrow> string \<Rightarrow> jsval \<Rightarrow> (string \<times> jsval) list" where
  "upsert [] k x = [(k, x)]"
| "upsert ((k', v) # ps) k x = (if k' = k then (k, x) # ps else (k', v) # upsert ps k x)"

fun set_prop :: "jsval \<Rightarrow> string \<Rightarrow> jsval \<Rightarrow> jsval option" where
  "set_prop (JObj ps) k x = Some (JObj (upsert ps k x))"
| "set_prop (JArr ps) k x = Some (JArr (upsert ps k x))"
| "set_prop v k x = None"

subsection \<open>JSON.stringify\<close>

text \<open>
  The built-in \<open>JSON.stringify\<close> with one argument, after the ECMAScript definition:
  no white space; a string quoted with its quotation marks, backslashes and control
  characters escaped; \<open>NaN\<close> printed as \<open>null\<close>; a property whose value is
  \<open>undefined\<close> left out of an object and printed as \<open>null\<close> in an array. The result
  \<open>None\<close> is the value \<open>undefined\<close>, which \<open>JSON.stringify(undefined)\<close> returns.
\<close>

definition hex_char :: "nat \<Rightarrow> char" where
  "hex_char d = (if d < 10 then digit_char d else char_of (of_char (CHR ''a'') + (d - 10)))"

definition quote_char :: "char \<Rightarrow> string" where
  "quote_char c =
     (if c = CHR 0x22 then [CHR 0x5C, CHR 0x22]
      else if c = CHR 0x5C then [CHR 0x5C, CHR 0x5C]
      else if c = CHR 0x08 then [CHR 0x5C, CHR ''b'']
      else if c = CHR 0x09 then [CHR 0x5C, CHR ''t'']
      else if c = CHR 0x0A then [CHR 0x5C, CHR ''n'']
      else if c = CHR 0x0C then [CHR 0x5C, CHR ''f'']
      else if c = CHR 0x0D then [CHR 0x5C, CHR ''r'']
      else if (of_char c :: nat) < 32
        then [CHR 0x5C, CHR ''u'', CHR ''0'', CHR ''0'',
              hex_char (of_char c div 16), hex_char (of_char c mod 16)]
      else [c])"

definition quote :: "string \<Rightarrow> string" where
  "quote s = [CHR 0x22] @ concat (map quote_char s) @ [CHR 0x22]"

fun serialize :: "jsval \<Rightarrow> string option"
  and serialize_members :: "(string \<times> jsval) list \<Rightarrow> string list"
  and serialize_elements :: "(string \<times> jsval) list \<Rightarrow> string list" where
  "serialize JUndefined = None"
| "serialize JNull = Some ''null''"
| "serialize (JBool b) = Some (if b then ''true'' else ''false'')"
| "serialize (JNum n) = Some (int_to_string n)"
| "serialize JNaN = Some ''null''"
| "serialize (JStr s) = Some (quote s)"
| "serialize (JObj ps) = Some (''{'' @ join_with '','' (serialize_members ps) @ ''}'')"
| "serialize (JArr ps) = Some (''['' @ join_with '','' (serialize_elements ps) @ '']'')"
| "serialize_members [] = []"
| "serialize_members ((k, v) # ps) =
     (case serialize v of
        None \<Rightarrow> serialize_members ps
      | Some t \<Rightarrow> (quote k @ '':'' @ t) # serialize_members ps)"
| "serialize_elements [] = []"
| "serialize_elements ((k, v) # ps) =
     (if is_index k
      then (case serialize v of None \<Rightarrow> ''null'' | Some t \<Rightarrow> t) # serialize_elements ps
      else serialize_elements ps)"

definition JSON_stringify :: "jsval \<Rightarrow> string option" where
  "JSON_stringify v = serialize v"

section \<open>The map screen: the download coordinator\<close>

text \<open>
  The component state of \<open>HomeScreen\<close> that the download handlers read and write, with
  the two effects they have on the outside: the dialogs shown by \<open>Alert.alert\<close> (title
  and message) and the requests passed to \<open>offlineManager.createPack\<close>. Progress
  fractions are exact rationals. Calls of \<open>console.log\<close> are left out.
\<close>

type_synonym bounds = "(rat \<times> rat) \<times> (rat \<times> rat)"

record pack_options =
  opt_name :: string
  opt_styleURL :: string
  opt_bounds :: bounds
  opt_minZoom :: int
  opt_maxZoom :: int
  opt_metadata :: "string option"

record home_state =
  isDownloading :: bool
  downloadProgress :: rat
  alerts :: "(string \<times> string) list"
  createPack_calls :: "pack_options list"

record OfflinePackStatus =
  status_state :: int
  status_percentage :: rat

record OfflinePackInfo =
  info_name :: string
  info_metadata :: jsval

record OfflinePackError =
  err_message :: string

definition MAP_STYLE_URL :: string where
  "MAP_STYLE_URL = ''https://tiles.openfreemap.org/styles/liberty''"

definition alert :: "string \<Rightarrow> string \<Rightarrow> home_state \<Rightarrow> home_state" where
  "alert title msg st = st\<lparr>alerts := alerts st @ [(title, msg)]\<rparr>"

text \<open>
  The progress listener. The label in its dialog is the template literal's
  \<open>pack.metadata?.name || pack.name\<close>.
\<close>

definition onProgress :: "OfflinePackInfo \<Rightarrow> OfflinePackStatus \<Rightarrow> home_state \<Rightarrow> home_state" where
  "onProgress pack status st =
     (let progress = status_percentage status / 100;
          st1 = st\<lparr>downloadProgress := progress\<rparr>
      in if status_state status = 3
         then (alert ''Download Complete''
                 (''Region '' @ [CHR 0x22]
                    @ to_string (or_else (get_opt (info_metadata pack) ''name'')
                                   (JStr (info_name pack)))
                    @ [CHR 0x22] @ '' downloaded successfully.'') st1)
                \<lparr>isDownloading := False, downloadProgress := 1\<rparr>
         else st1)"

definition onError :: "OfflinePackInfo \<Rightarrow> OfflinePackError \<Rightarrow> home_state \<Rightarrow> home_state" where
  "onError pack err st =
     (alert ''Download Error''
        (''Failed to download region ''
           @ to_string (or_else (JStr (info_name pack)) (JStr ''Unknown Pack''))
           @ ''. '' @ err_message err) st)
       \<lparr>isDownloading := False, downloadProgress := 0\<rparr>"

text \<open>
  What \<open>handleDownload\<close> obtains from its surroundings during one call: whether the
  offline manager exists, the results of the awaited \<open>getVisibleBounds\<close> and
  \<open>getZoom\<close> (\<open>Inl\<close> a thrown error's message, \<open>Inr None\<close> for \<open>undefined\<close>), the two
  readings of \<open>Date.now()\<close>, the text of \<open>toLocaleTimeString()\<close>, and whether
  \<open>createPack\<close> throws.
\<close>

record download_env =
  offlineManager :: bool
  getVisibleBounds :: "string + bounds option"
  getZoom :: "string + rat option"
  now_name :: int
  now_meta :: int
  localeTimeString :: string
  createPack_throws :: "string option"

text \<open>Which \<open>return\<close> of \<open>handleDownload\<close> a call leaves through.\<close>

datatype download_outcome = DownloadPrevented | NoBoundsOrZoom | StartFailed | CreatePackIssued

definition start_failed :: "string \<Rightarrow> home_state \<Rightarrow> download_outcome \<times> home_state" where
  "start_failed msg st =
     (StartFailed,
      (alert ''Error'' (''Failed to start download. '' @ msg) st)
        \<lparr>isDownloading := False, downloadProgress := 0\<rparr>)"

text \<open>The body of the \<open>try\<close> block, entered with the flag set.\<close>

definition handleDownload_try :: "download_env \<Rightarrow> home_state \<Rightarrow> download_outcome \<times> home_state" where
  "handleDownload_try env st =
     (case getVisibleBounds env of
        Inl msg \<Rightarrow> start_failed msg st
      | Inr bounds \<Rightarrow>
         (case getZoom env of
            Inl msg \<Rightarrow> start_failed msg st
          | Inr zoom \<Rightarrow>
             (case (bounds, zoom) of
                (Some b, Some z) \<Rightarrow>
                  (let packName = ''offline-pack-'' @ int_to_string (now_name env);
                       metadata = JObj [(''name'', JStr (''Region @ '' @ localeTimeString env)),
                                        (''downloaded_at'', JNum (now_meta env))];
                       options = \<lparr>opt_name = packName, opt_styleURL = MAP_STYLE_URL,
                                  opt_bounds = b,
                                  opt_minZoom = max 0 (\<lfloor>z\<rfloor> - 2),
                                  opt_maxZoom = min 16 (\<lfloor>z\<rfloor> + 3),
                                  opt_metadata = JSON_stringify metadata\<rparr>
                   in (case createPack_throws env of
                         Some msg \<Rightarrow> start_failed msg st
                       | None \<Rightarrow>
                           (CreatePackIssued,
                            st\<lparr>createPack_calls := createPack_calls st @ [options]\<rparr>)))
              | _ \<Rightarrow>
                  (NoBoundsOrZoom,
                   (alert ''Error'' ''Could not get map bounds or zoom level.'' st)
                     \<lparr>isDownloading := False\<rparr>))))"

text \<open>
  \<open>handleDownload\<close> is a closure made by a render of the component
  (\<open>useCallback\<close> with \<open>isDownloading\<close> among its dependencies): the flag its guard
  tests is the constant \<open>isDownloading\<close> of that render, the first argument here,
  not the state at the time of the call. \<open>setIsDownloading\<close> and
  \<open>setDownloadProgress\<close> write the state, which the next render shows.
\<close>

definition handleDownload ::
  "bool \<Rightarrow> download_env \<Rightarrow> home_state \<Rightarrow> download_outcome \<times> home_state" where
  "handleDownload captured env st =
     (if captured \<or> \<not> offlineManager env
      then (DownloadPrevented,
            if \<not> offlineManager env
            then alert ''Error''
                   ''Offline manager is not yet available. Please wait and try again.'' st
            else st)
      else handleDownload_try env (st\<lparr>isDownloading := True, downloadProgress := 0\<rparr>))"

text \<open>
  A call of the handler that belongs to the render of the state \<open>st\<close>, made while
  \<open>st\<close> is still the state: a press of the button after the component has
  rendered again.
\<close>

definition press_download :: "download_env \<Rightarrow> home_state \<Rightarrow> download_outcome \<times> home_state" where
  "press_download env st = handleDownload (isDownloading st) env st"

text \<open>
  The states of the component after each of a series of progress callbacks for one
  pack: what the screen publishes.
\<close>

fun progress_run :: "OfflinePackInfo \<Rightarrow> OfflinePackStatus list \<Rightarrow> home_state \<Rightarrow> home_state list" where
  "progress_run pack [] st = []"
| "progress_run pack (s # ss) st = onProgress pack s st # progress_run pack ss (onProgress pack s st)"

section \<open>The built-ins used by the region list\<close>

subsection \<open>parseInt\<close>

text \<open>
  \<open>parseInt(s)\<close> with no radix, after the ECMAScript definition: leading white space
  is dropped, then an optional sign, then an optional \<open>0x\<close> or \<open>0X\<close> (which selects
  radix 16), then the longest run of digits of the radix is read; what follows is
  ignored. No digit at all gives \<open>NaN\<close>, which is the result \<open>None\<close>; so
  \<open>isNaN(parseInt(s))\<close> is \<open>parseInt s = None\<close>.
\<close>

definition is_space :: "char \<Rightarrow> bool" where
  "is_space c = ((of_char c :: nat) \<in> {9, 10, 11, 12, 13, 32, 160})"

definition digit_val :: "nat \<Rightarrow> char \<Rightarrow> nat option" where
  "digit_val radix c =
     (let n = (of_char c :: nat);
          v = (if 48 \<le> n \<and> n \<le> 57 then Some (n - 48)
               else if 97 \<le> n \<and> n \<le> 122 then Some (n - 87)
               else if 65 \<le> n \<and> n \<le> 90 then Some (n - 55)
               else None)
      in case v of None \<Rightarrow> None | Some d \<Rightarrow> if d < radix then Some d else None)"

definition digits_value :: "nat \<Rightarrow> string \<Rightarrow> int" where
  "digits_value radix z =
     foldl (\<lambda>a c. int radix * a + int (case digit_val radix c of None \<Rightarrow> 0 | Some d \<Rightarrow> d)) 0 z"

definition parseInt :: "string \<Rightarrow> int option" where
  "parseInt s =
     (let s1 = dropWhile is_space s;
          neg = (take 1 s1 = ''-'');
          s2 = (if take 1 s1 = ''-'' \<or> take 1 s1 = ''+'' then drop 1 s1 else s1);
          hex = (take 2 s2 = ''0x'' \<or> take 2 s2 = ''0X'');
          radix = (if hex then 16 else 10);
          s3 = (if hex then drop 2 s2 else s2);
          z = takeWhile (\<lambda>c. digit_val radix c \<noteq> None) s3
      in if z = [] then None
         else Some (if neg then - digits_value radix z else digits_value radix z))"

text \<open>The number that the comparator of \<open>sort\<close> subtracts, for a key that passed the filter.\<close>

definition parseInt_num :: "string \<Rightarrow> int" where
  "parseInt_num k = (case parseInt k of None \<Rightarrow> 0 | Some n \<Rightarrow> n)"

subsection \<open>Strings and keys\<close>

text \<open>
  \<open>s.toLowerCase()\<close> on 8-bit characters, as far as the search for \<open>size\<close> and
  \<open>bytes\<close> can tell: the capital letters A to Z are lowered.
\<close>

definition toLowerCase :: "string \<Rightarrow> string" where
  "toLowerCase s =
     map (\<lambda>c. if 65 \<le> (of_char c :: nat) \<and> (of_char c :: nat) \<le> 90
               then char_of ((of_char c :: nat) + 32) else c) s"

text \<open>\<open>s.includes(t)\<close>\<close>

definition str_includes :: "string \<Rightarrow> string \<Rightarrow> bool" where
  "str_includes s t = sublist t s"

text \<open>\<open>Object.keys(v)\<close> and the keys a \<open>for ... in\<close> loop visits.\<close>

fun object_keys :: "jsval \<Rightarrow> string list" where
  "object_keys (JObj ps) = map fst ps"
| "object_keys (JArr ps) = map fst ps"
| "object_keys (JStr s) = map dec [0..<length s]"
| "object_keys v = []"

section \<open>The region list: decoding the metadata of a raw pack\<close>

text \<open>
  A raw pack record of the storage layer is the list of its own properties, and
  \<open>field\<close> reads one (\<open>pack.k\<close>). \<open>JSON.parse\<close> is a parameter of the model, of type
  \<open>parser\<close>: the result \<open>None\<close> is a thrown SyntaxError.
\<close>

type_synonym raw_pack = "(string \<times> jsval) list"

type_synonym parser = "string \<Rightarrow> jsval option"

definition field :: "raw_pack \<Rightarrow> string \<Rightarrow> jsval" where
  "field pack k = (case map_of pack k of None \<Rightarrow> JUndefined | Some v \<Rightarrow> v)"

text \<open>An object literal \<open>{ name: s }\<close>.\<close>

definition named :: "string \<Rightarrow> jsval" where
  "named s = JObj [(''name'', JStr s)]"

text \<open>
  The keys of the character map that pass \<open>!isNaN(parseInt(key))\<close>, sorted by the
  comparator \<open>parseInt(a) - parseInt(b)\<close>; \<open>Array.prototype.sort\<close> is stable.
\<close>

definition numericKeys :: "jsval \<Rightarrow> string list" where
  "numericKeys md = sort_key parseInt_num (filter (\<lambda>key. parseInt key \<noteq> None) (object_keys md))"

definition reconstructedJson :: "jsval \<Rightarrow> string" where
  "reconstructedJson md = concat (map (\<lambda>key. to_string (get_opt md key)) (numericKeys md))"

text \<open>
  The inner \<open>try\<close> block: parse the reconstructed text and keep the result. The
  variables \<open>metadata\<close> and \<open>parsed\<close> name one and the same object, so the
  assignments that follow write back what they read; reading \<open>name\<close> from a parsed
  \<open>null\<close> throws. The result \<open>None\<close> is an exception, which the \<open>catch\<close> handles.
\<close>

definition parse_reconstructed :: "parser \<Rightarrow> string \<Rightarrow> jsval option" where
  "parse_reconstructed parse json =
     Option.bind (parse json) (\<lambda>parsed.
     Option.bind (get_prop parsed ''name'') (\<lambda>n.
     Option.bind (if \<not> truthy n \<and> typeof n = ''string''
                  then set_prop parsed ''name'' n else Some parsed) (\<lambda>metadata.
     Option.bind (get_prop metadata ''downloaded_at'') (\<lambda>d.
       if \<not> truthy d \<and> typeof d = ''number''
       then set_prop metadata ''downloaded_at'' d else Some metadata))))"

text \<open>The \<open>catch\<close> of the inner \<open>try\<close>.\<close>

definition recover_from_map :: "raw_pack \<Rightarrow> jsval \<Rightarrow> jsval" where
  "recover_from_map pack md =
     (if truthy (get_opt md ''name'')
      then (if length (numericKeys md) > 45
            then (let timestampChars =
                        filter truthy (map (\<lambda>i. get_opt md (dec i)) [46..<59])
                  in if length timestampChars > 0
                     then (case parseInt (concat (map to_string timestampChars)) of
                             None \<Rightarrow> JObj [(''name'', get_opt md ''name'')]
                           | Some timestamp \<Rightarrow>
                               JObj [(''name'', get_opt md ''name''),
                                     (''downloaded_at'', JNum timestamp)])
                     else JObj [(''name'', get_opt md ''name'')])
            else JObj [(''name'', get_opt md ''name'')])
      else named (''Pack: '' @ to_string (or_else (field pack ''name'') (JStr ''Unknown''))))"

text \<open>
  The branch for a pack whose \<open>_metadata\<close> is an object: the character-by-character
  format. Nothing in it throws outside the inner \<open>try\<close>, so its outer \<open>catch\<close> is
  never entered.
\<close>

definition decode_character_map :: "parser \<Rightarrow> raw_pack \<Rightarrow> jsval" where
  "decode_character_map parse pack =
     (let md = field pack ''_metadata''
      in case parse_reconstructed parse (reconstructedJson md) of
           Some metadata \<Rightarrow> metadata
         | None \<Rightarrow> recover_from_map pack md)"

text \<open>
  The branch for every other pack: the \<open>metadata\<close> property. The body of its
  \<open>try\<close> has the result \<open>None\<close> for an exception, which the \<open>catch\<close> turns into
  the label \<open>Error: ...\<close>.
\<close>

definition decode_metadata_try :: "parser \<Rightarrow> raw_pack \<Rightarrow> jsval option" where
  "decode_metadata_try parse pack =
     (let m = field pack ''metadata''; id = to_string (field pack ''name'')
      in if truthy m
         then (let metadata1 =
                     (if typeof m = ''object'' \<and> m \<noteq> JNull then m
                      else if typeof m = ''string''
                        then (case parse (to_string m) of
                                Some parsed \<Rightarrow> parsed
                              | None \<Rightarrow> named (''Invalid JSON: '' @ id))
                      else named (''Unknown type: '' @ id));
                    metadata2 =
                     (if typeof metadata1 \<noteq> ''object'' \<or> metadata1 = JNull
                      then named (''Type error: '' @ id) else metadata1)
               in Option.bind (get_prop metadata2 ''name'') (\<lambda>n.
                    if \<not> truthy n
                    then set_prop metadata2 ''name'' (JStr (''Pack: '' @ id))
                    else Some metadata2))
         else Some (named (''Pack: '' @ id)))"

definition decode_metadata_field :: "parser \<Rightarrow> raw_pack \<Rightarrow> jsval" where
  "decode_metadata_field parse pack =
     (case decode_metadata_try parse pack of
        Some metadata \<Rightarrow> metadata
      | None \<Rightarrow> named (''Error: '' @ to_string (field pack ''name'')))"

text \<open>The metadata that \<open>fetchPacks\<close> computes for one raw pack.\<close>

definition decode :: "parser \<Rightarrow> raw_pack \<Rightarrow> jsval" where
  "decode parse pack =
     (if truthy (field pack ''_metadata'') \<and> typeof (field pack ''_metadata'') = ''object''
      then decode_character_map parse pack
      else decode_metadata_field parse pack)"

text \<open>The display name of a decoded metadata: its property \<open>name\<close>.\<close>

definition displayName :: "jsval \<Rightarrow> jsval" where
  "displayName metadata = get_opt metadata ''name''"

section \<open>The region list: sizes\<close>

definition is_number :: "jsval \<Rightarrow> bool" where
  "is_number v = (typeof v = ''number'')"

definition inspectPackForSize :: "raw_pack \<Rightarrow> jsval" where
  "inspectPackForSize pack =
     (if is_number (field pack ''size'') then field pack ''size''
      else if is_number (field pack ''byteSize'') then field pack ''byteSize''
      else if is_number (field pack ''bytes'') then field pack ''bytes''
      else if is_number (field pack ''completedResourceSize'')
        then field pack ''completedResourceSize''
      else if is_number (field pack ''completedResourceCount'')
              \<and> is_number (field pack ''completedResourceSize'')
        then field pack ''completedResourceSize''
      else if truthy (field pack ''progress'') \<and> typeof (field pack ''progress'') = ''object''
              \<and> is_number (get_opt (field pack ''progress'') ''completedResourceSize'')
        then get_opt (field pack ''progress'') ''completedResourceSize''
      else if truthy (field pack ''progress'') \<and> typeof (field pack ''progress'') = ''object''
              \<and> is_number (get_opt (field pack ''progress'') ''completedSize'')
        then get_opt (field pack ''progress'') ''completedSize''
      else (case find (\<lambda>key. is_number (field pack key)
                           \<and> (str_includes (toLowerCase key) ''size''
                                \<or> str_includes (toLowerCase key) ''bytes''))
                   (map fst pack) of
              Some key \<Rightarrow> field pack key
            | None \<Rightarrow> JNull))"

text \<open>
  The estimate that \<open>fetchPacks\<close> attaches to a pack; \<open>inspectPackForSize\<close> is not
  called by it. The outer \<open>None\<close> is the TypeError of reading \<open>length\<close> from
  \<open>undefined\<close>; the inner \<open>None\<close> is the value \<open>null\<close>.
\<close>

definition estimatedSize :: "raw_pack \<Rightarrow> int option option" where
  "estimatedSize pack =
     (if truthy (field pack ''_metadata'')
      then (case JSON_stringify (field pack ''_metadata'') of
              None \<Rightarrow> None
            | Some metadataStr \<Rightarrow> Some (Some (10 * 1024 + int (length metadataStr) * 2)))
      else Some None)"

record OfflinePack =
  op_name :: jsval
  op_bounds :: jsval
  op_metadata :: jsval
  op_size :: "int option"

text \<open>The callback of \<open>map\<close> in \<open>fetchPacks\<close>; \<open>None\<close> is an exception thrown by it.\<close>

definition formatPack :: "parser \<Rightarrow> raw_pack \<Rightarrow> OfflinePack option" where
  "formatPack parse pack =
     (let metadata = decode parse pack
      in case estimatedSize pack of
           None \<Rightarrow> None
         | Some estimated \<Rightarrow>
             Some \<lparr>op_name = field pack ''name'',
                   op_bounds = or_else (field pack ''bounds'')
                                 (if truthy (field pack ''pack'')
                                  then get_opt (field pack ''pack'') ''bounds'' else JNull),
                   op_metadata = metadata,
                   op_size = estimated\<rparr>)"

section \<open>The region list: fetching\<close>

text \<open>
  The state of \<open>TabTwoScreen\<close> that \<open>fetchPacks\<close> writes, the dialogs it shows and the
  number of calls of \<open>offlineManager.getPacks\<close> made so far. One call of
  \<open>fetchPacks\<close> is given the outcome of its \<open>getPacks\<close> call: a rejection with its
  message, or the raw value (\<open>None\<close> for \<open>null\<close> or \<open>undefined\<close>).
\<close>

record explore_state =
  packs :: "OfflinePack list"
  isLoading :: bool
  isRefreshing :: bool
  shown :: "(string \<times> string) list"
  getPacks_calls :: nat

text \<open>
  The message of the TypeError that the callback of \<open>map\<close> would throw; its wording
  is the engine's.
\<close>

definition TypeError_message :: string where
  "TypeError_message = ''Cannot read property of undefined''"

fun those_packs :: "OfflinePack option list \<Rightarrow> OfflinePack list option" where
  "those_packs [] = Some []"
| "those_packs (None # xs) = None"
| "those_packs (Some x # xs) = map_option (Cons x) (those_packs xs)"

definition fetch_failed :: "string \<Rightarrow> explore_state \<Rightarrow> explore_state" where
  "fetch_failed msg st =
     st\<lparr>shown := shown st @ [(''Error'', ''Could not fetch offline packs. '' @ msg)],
        packs := [], isLoading := False, isRefreshing := False\<rparr>"

definition fetchPacks ::
  "parser \<Rightarrow> bool \<Rightarrow> bool \<Rightarrow> (string + raw_pack list option) \<Rightarrow> explore_state \<Rightarrow> explore_state" where
  "fetchPacks parse manager refreshing getPacks st =
     (if \<not> manager
      then (if \<not> refreshing then st\<lparr>isLoading := True\<rparr> else st)
      else (let st1 = (if refreshing then st\<lparr>isRefreshing := True\<rparr> else st\<lparr>isLoading := True\<rparr>);
                st2 = st1\<lparr>getPacks_calls := Suc (getPacks_calls st1)\<rparr>
            in case getPacks of
                 Inl msg \<Rightarrow> fetch_failed msg st2
               | Inr offlinePacksRaw \<Rightarrow>
                   (case those_packs (map (formatPack parse)
                            (case offlinePacksRaw of None \<Rightarrow> [] | Some raw \<Rightarrow> raw)) of
                      None \<Rightarrow> fetch_failed TypeError_message st2
                    | Some formattedPacks \<Rightarrow>
                        st2\<lparr>packs := formattedPacks, isLoading := False, isRefreshing := False\<rparr>)))"

section \<open>A model of JSON.parse\<close>

text \<open>
  The theorems below hold for every \<open>parser\<close>. To evaluate the code on concrete
  packs, \<open>JSON_parse\<close> models the built-in after the JSON grammar of ECMAScript: white
  space, the literals \<open>null\<close>, \<open>true\<close> and \<open>false\<close>, integer numerals, strings with the
  two-character escapes, arrays and objects (a repeated key keeps its first place and
  its last value; array-index keys come first, in ascending order). A numeral with a
  fraction or an exponent and a \<open>\u\<close> escape denote values outside the datatype
  \<open>jsval\<close>, and this model rejects them. The first argument bounds the nesting depth
  and the number of members; \<open>JSON_parse\<close> starts with more than the length of the text.
\<close>

definition is_json_space :: "char \<Rightarrow> bool" where
  "is_json_space c = ((of_char c :: nat) \<in> {9, 10, 13, 32})"

definition skip_ws :: "string \<Rightarrow> string" where
  "skip_ws s = dropWhile is_json_space s"

definition unescape :: "char \<Rightarrow> char option" where
  "unescape e =
     (if e = CHR 0x22 then Some (CHR 0x22)
      else if e = CHR 0x5C then Some (CHR 0x5C)
      else if e = CHR ''/'' then Some (CHR ''/'')
      else if e = CHR ''b'' then Some (CHR 0x08)
      else if e = CHR ''f'' then Some (CHR 0x0C)
      else if e = CHR ''n'' then Some (CHR 0x0A)
      else if e = CHR ''r'' then Some (CHR 0x0D)
      else if e = CHR ''t'' then Some (CHR 0x09)
      else None)"

text \<open>The characters of a string after its opening quotation mark, and the rest.\<close>

fun parse_chars :: "string \<Rightarrow> (string \<times> string) option" where
  "parse_chars [] = None"
| "parse_chars [c] = (if c = CHR 0x22 then Some ([], []) else None)"
| "parse_chars (c # e # cs) =
     (if c = CHR 0x22 then Some ([], e # cs)
      else if c = CHR 0x5C
        then (case unescape e of
                None \<Rightarrow> None
              | Some x \<Rightarrow> map_option (\<lambda>(s, r). (x # s, r)) (parse_chars cs))
      else if (of_char c :: nat) < 32 then None
      else map_option (\<lambda>(s, r). (c # s, r)) (parse_chars (e # cs)))"

text \<open>An integer numeral: an optional minus sign, then \<open>0\<close> or digits not starting with \<open>0\<close>.\<close>

definition parse_number :: "string \<Rightarrow> (jsval \<times> string) option" where
  "parse_number s =
     (let neg = (take 1 s = ''-'');
          s1 = (if neg then drop 1 s else s);
          ds = takeWhile is_digit s1;
          r = dropWhile is_digit s1
      in if ds = [] \<or> (length ds > 1 \<and> take 1 ds = ''0'') then None
         else if take 1 r = ''.'' \<or> take 1 r = ''e'' \<or> take 1 r = ''E'' then None
         else Some (JNum (if neg then - digits_value 10 ds else digits_value 10 ds), r))"

text \<open>The order in which an object lists its own keys: array indices ascending, then the rest.\<close>

definition key_order :: "(string \<times> jsval) list \<Rightarrow> (string \<times> jsval) list" where
  "key_order ps =
     sort_key (\<lambda>p. index_of (fst p)) (filter (\<lambda>p. is_index (fst p)) ps)
       @ filter (\<lambda>p. \<not> is_index (fst p)) ps"

definition make_object :: "(string \<times> jsval) list \<Rightarrow> jsval" where
  "make_object ms = JObj (key_order (foldl (\<lambda>ps (k, v). upsert ps k v) [] ms))"

definition make_array :: "jsval list \<Rightarrow> jsval" where
  "make_array vs = JArr (zip (map dec [0..<length vs]) vs)"

fun parse_value :: "nat \<Rightarrow> string \<Rightarrow> (jsval \<times> string) option"
  and parse_members :: "nat \<Rightarrow> string \<Rightarrow> ((string \<times> jsval) list \<times> string) option"
  and parse_elements :: "nat \<Rightarrow> string \<Rightarrow> (jsval list \<times> string) option" where
  "parse_value 0 s = None"
| "parse_value (Suc fuel) s =
     (case skip_ws s of
        [] \<Rightarrow> None
      | c # cs \<Rightarrow>
          if c = CHR ''{''
            then (if take 1 (skip_ws cs) = ''}'' then Some (JObj [], drop 1 (skip_ws cs))
                  else map_option (\<lambda>(ms, r). (make_object ms, r)) (parse_members fuel cs))
          else if c = CHR ''[''
            then (if take 1 (skip_ws cs) = '']'' then Some (JArr [], drop 1 (skip_ws cs))
                  else map_option (\<lambda>(vs, r). (make_array vs, r)) (parse_elements fuel cs))
          else if c = CHR 0x22
            then map_option (\<lambda>(str, r). (JStr str, r)) (parse_chars cs)
          else if take 4 (c # cs) = ''null'' then Some (JNull, drop 4 (c # cs))
          else if take 4 (c # cs) = ''true'' then Some (JBool True, drop 4 (c # cs))
          else if take 5 (c # cs) = ''false'' then Some (JBool False, drop 5 (c # cs))
          else parse_number (c # cs))"
| "parse_members 0 s = None"
| "parse_members (Suc fuel) s =
     (case skip_ws s of
        [] \<Rightarrow> None
      | q # cs \<Rightarrow>
          if q \<noteq> CHR 0x22 then None
          else (case parse_chars cs of
                  None \<Rightarrow> None
                | Some (k, r1) \<Rightarrow>
                    if take 1 (skip_ws r1) \<noteq> '':'' then None
                    else (case parse_value fuel (drop 1 (skip_ws r1)) of
                            None \<Rightarrow> None
                          | Some (v, r2) \<Rightarrow>
                              if take 1 (skip_ws r2) = ''}''
                                then Some ([(k, v)], drop 1 (skip_ws r2))
                              else if take 1 (skip_ws r2) = '',''
                                then map_option (\<lambda>(ms, r). ((k, v) # ms, r))
                                       (parse_members fuel (drop 1 (skip_ws r2)))
                              else None)))"
| "parse_elements 0 s = None"
| "parse_elements (Suc fuel) s =
     (case parse_value fuel s of
        None \<Rightarrow> None
      | Some (v, r1) \<Rightarrow>
          if take 1 (skip_ws r1) = '']'' then Some ([v], drop 1 (skip_ws r1))
          else if take 1 (skip_ws r1) = '',''
            then map_option (\<lambda>(vs, r). (v # vs, r)) (parse_elements fuel (drop 1 (skip_ws r1)))
          else None)"

definition JSON_parse :: parser where
  "JSON_parse s =
     (case parse_value (Suc (length s)) s of
        None \<Rightarrow> None
      | Some (v, r) \<Rightarrow> if skip_ws r = [] then Some v else None)"

section \<open>Auxiliary notions for the statements\<close>

text \<open>A decimal digit, as a character.\<close>

definition decimal :: "char \<Rightarrow> bool" where
  "decimal c = (48 \<le> (of_char c :: nat) \<and> (of_char c :: nat) \<le> 57)"

text \<open>
  The character map that the transport makes of a text: character \<open>i\<close> under the
  key that is the decimal numeral of \<open>i\<close>.
\<close>

definition scatter :: "string \<Rightarrow> (string \<times> jsval) list" where
  "scatter s = zip (map dec [0..<length s]) (map (\<lambda>c. JStr [c]) s)"

text \<open>The strings that a character map holds under the keys 46 to 58, in a row.\<close>

definition chars_46_58 :: "jsval \<Rightarrow> string" where
  "chars_46_58 md =
     concat (map (\<lambda>i. case get_opt md (dec i) of JStr s \<Rightarrow> s | _ \<Rightarrow> []) [46..<59])"

text \<open>The test that sends \<open>fetchPacks\<close> into the character-by-character branch.\<close>

definition has_character_map :: "raw_pack \<Rightarrow> bool" where
  "has_character_map pack =
     (truthy (field pack ''_metadata'') \<and> typeof (field pack ''_metadata'') = ''object'')"

section \<open>Sample inputs\<close>

definition idle_state :: home_state where
  "idle_state = \<lparr>isDownloading = False, downloadProgress = 0, alerts = [], createPack_calls = []\<rparr>"

definition sample_env :: download_env where
  "sample_env = \<lparr>offlineManager = True,
                  getVisibleBounds = Inr (Some ((11, 46), (10, 45))),
                  getZoom = Inr (Some 12),
                  now_name = 1700000000000, now_meta = 1700000000001,
                  localeTimeString = ''10:30:00 AM'',
                  createPack_throws = None\<rparr>"

definition sample_pack :: OfflinePackInfo where
  "sample_pack = \<lparr>info_name = ''offline-pack-1700000000000'',
                   info_metadata = JObj [(''name'', JStr ''Region @ 10:30:00 AM'')]\<rparr>"

definition later_env :: download_env where
  "later_env = sample_env\<lparr>now_name := 1700000000050, now_meta := 1700000000051\<rparr>"

definition unnamed_pack :: OfflinePackInfo where
  "unnamed_pack = \<lparr>info_name = ''offline-pack-1700000000050'', info_metadata = JNull\<rparr>"

definition downloading_state :: home_state where
  "downloading_state =
     \<lparr>isDownloading = True, downloadProgress = 0, alerts = [], createPack_calls = []\<rparr>"

definition brace_pack :: raw_pack where
  "brace_pack = [(''name'', JStr ''offline-pack-1''),
                 (''_metadata'', JObj [(''0'', JStr ''{''), (''1'', JStr ''}'')])]"

definition garbled_pack :: raw_pack where
  "garbled_pack = [(''name'', JStr ''offline-pack-2''), (''metadata'', JStr ''not json'')]"

definition unparsable_pack :: raw_pack where
  "unparsable_pack = [(''name'', JStr ''offline-pack-3''), (''metadata'', JStr ''#%&*'')]"

definition bare_pack :: raw_pack where
  "bare_pack = [(''name'', JStr ''offline-pack-4'')]"

definition nameless_object_pack :: raw_pack where
  "nameless_object_pack = [(''name'', JStr ''offline-pack-5''),
                           (''metadata'', JObj [(''downloaded_at'', JNum 1700000000000)])]"

definition nameless_string_pack :: raw_pack where
  "nameless_string_pack = [(''name'', JStr ''offline-pack-6''), (''metadata'', JStr ''{}'')]"

definition broken_map_pack :: raw_pack where
  "broken_map_pack = [(''name'', JStr ''offline-pack-7''),
                      (''_metadata'', JObj [(''0'', JStr ''{''), (''1'', JStr ''x'')])]"

definition sized_pack :: raw_pack where
  "sized_pack = [(''name'', JStr ''offline-pack-8''), (''size'', JNum 52428800)]"

definition stale_state :: explore_state where
  "stale_state = \<lparr>packs = [\<lparr>op_name = JStr ''offline-pack-1'', op_bounds = JNull,
                                op_metadata = named ''Region @ 9:30:00 AM'', op_size = None\<rparr>],
                   isLoading = False, isRefreshing = False, shown = [], getPacks_calls = 3\<rparr>"





text \<open>
  A character map of a stored text whose first character is damaged, with a \<open>name\<close>
  property of its own; the characters 46 to 58 of the text are the time stamp.
\<close>

definition damaged_blob :: string where
  "damaged_blob =
     ''?'' @ quote ''name'' @ '':'' @ quote ''Region @ 9:30:00 AM'' @ '',''
       @ quote ''downloaded_at'' @ '':1700000000000}''"

definition damaged_pack :: raw_pack where
  "damaged_pack = [(''name'', JStr ''offline-pack-11''),
                   (''_metadata'',
                    JObj (scatter damaged_blob @ [(''name'', JStr ''Region @ 9:30:00 AM'')]))]"

definition short_map_pack :: raw_pack where
  "short_map_pack = [(''name'', JStr ''offline-pack-12''),
                     (''_metadata'', JObj [(''0'', JStr ''{''), (''name'', JStr ''Ridge'')])]"

definition torn_pack :: raw_pack where
  "torn_pack = [(''name'', JStr ''offline-pack-13''), (''metadata'', JStr ''[1, 2'')]"

definition number_pack :: raw_pack where
  "number_pack = [(''name'', JStr ''offline-pack-14''), (''metadata'', JNum 5)]"

definition numeral_string_pack :: raw_pack where
  "numeral_string_pack = [(''name'', JStr ''offline-pack-15''), (''metadata'', JStr ''5'')]"

section \<open>Properties of the download coordinator\<close>

lemma progress_run_Nil_iff: "progress_run pack ss st = [] \<longleftrightarrow> ss = []"
  by (cases ss) simp_all

lemma progress_run_front:
  assumes "\<forall>s\<in>set front. status_state s \<noteq> 3"
  shows "map downloadProgress (progress_run pack front st)
           = map (\<lambda>s. status_percentage s / 100) front"
    and "front \<noteq> [] \<Longrightarrow> isDownloading (last (progress_run pack front st)) = isDownloading st"
    and "front \<noteq> [] \<Longrightarrow> alerts (last (progress_run pack front st)) = alerts st"
  using assms
  by (induction front arbitrary: st) (auto simp: onProgress_def Let_def progress_run_Nil_iff)

lemma progress_run_append:
  "progress_run pack (xs @ ys) st =
     progress_run pack xs st
       @ progress_run pack ys (if xs = [] then st else last (progress_run pack xs st))"
  by (induction xs arbitrary: st) (auto simp: Let_def progress_run_Nil_iff)

lemma progress_run_complete:
  assumes front: "\<forall>s\<in>set front. status_state s \<noteq> 3"
    and final: "status_state final = 3"
  shows "map downloadProgress (progress_run pack (front @ [final]) st)
           = map (\<lambda>s. status_percentage s / 100) front @ [1]"
    and "isDownloading (last (progress_run pack (front @ [final]) st)) = False"
    and "alerts (last (progress_run pack (front @ [final]) st))
           = alerts st @ [(''Download Complete'',
                ''Region '' @ [CHR 0x22]
                  @ (if truthy (get_opt (info_metadata pack) ''name'')
                     then to_string (get_opt (info_metadata pack) ''name'')
                     else info_name pack)
                  @ [CHR 0x22] @ '' downloaded successfully.'')]"
  using progress_run_front [OF front, of pack st] final
  by (auto simp: progress_run_append onProgress_def Let_def alert_def or_else_def)

text \<open>A handler whose render had the flag set turns the call away and requests nothing.\<close>

lemma handleDownload_guarded:
  "fst (handleDownload True env st) = DownloadPrevented
   \<and> isDownloading (snd (handleDownload True env st)) = isDownloading st
   \<and> downloadProgress (snd (handleDownload True env st)) = downloadProgress st
   \<and> createPack_calls (snd (handleDownload True env st)) = createPack_calls st
   \<and> (offlineManager env \<longrightarrow> snd (handleDownload True env st) = st)"
  by (simp add: handleDownload_def alert_def)

text \<open>
  C3. The claim is that of two calls of \<open>handleDownload\<close> in immediate succession
  exactly one is accepted. The guard of \<open>handleDownload\<close> tests the flag of the
  render that made the handler. Called twice before the component renders again,
  the handler of the idle render passes its guard both times: the first call sets the
  flag in the state and issues a request, and the second call, made in the state the
  first one left, issues a second request. The storage layer has then received two
  requests.
\<close>

theorem handleDownload_stale_guard:
  "\<not> isDownloading idle_state
   \<and> fst (handleDownload (isDownloading idle_state) sample_env idle_state) = CreatePackIssued
   \<and> isDownloading (snd (handleDownload (isDownloading idle_state) sample_env idle_state))
   \<and> fst (handleDownload (isDownloading idle_state) later_env
             (snd (handleDownload (isDownloading idle_state) sample_env idle_state)))
       = CreatePackIssued
   \<and> length (createPack_calls
         (snd (handleDownload (isDownloading idle_state) later_env
                (snd (handleDownload (isDownloading idle_state) sample_env idle_state))))) = 2"
  by (simp add: handleDownload_def handleDownload_try_def sample_env_def later_env_def
      idle_state_def Let_def)

text \<open>
  C4. For a series of progress callbacks of which the last, and only the last,
  carries the storage layer's "complete" state code 3, with percentages that do not
  decrease and lie between 0 and 100: the fraction published after each callback
  before the last is the percentage divided by 100, the fraction published after the
  last is exactly 1, the published fractions do not decrease, and after the last
  callback the download flag is cleared and one "Download Complete" dialog has been
  shown, whose message is \<open>Region "L" downloaded successfully.\<close> where the label
  \<open>L\<close> is the name in the pack's metadata when that is truthy, and the pack's
  own name otherwise.
\<close>

theorem onProgress_published:
  assumes front: "\<forall>s\<in>set front. status_state s \<noteq> 3"
    and final: "status_state final = 3"
    and mono: "sorted (map status_percentage (front @ [final]))"
    and range: "\<forall>s\<in>set (front @ [final]). 0 \<le> status_percentage s \<and> status_percentage s \<le> 100"
  shows "map downloadProgress (progress_run pack (front @ [final]) st)
           = map (\<lambda>s. status_percentage s / 100) front @ [1]
       \<and> sorted (map downloadProgress (progress_run pack (front @ [final]) st))
       \<and> downloadProgress (last (progress_run pack (front @ [final]) st)) = 1
       \<and> \<not> isDownloading (last (progress_run pack (front @ [final]) st))
       \<and> alerts (last (progress_run pack (front @ [final]) st))
           = alerts st @ [(''Download Complete'',
                ''Region '' @ [CHR 0x22]
                  @ (if truthy (get_opt (info_metadata pack) ''name'')
                     then to_string (get_opt (info_metadata pack) ''name'')
                     else info_name pack)
                  @ [CHR 0x22] @ '' downloaded successfully.'')]"
proof -
  let ?run = "progress_run pack (front @ [final]) st"
  have pub: "map downloadProgress ?run = map (\<lambda>s. status_percentage s / 100) front @ [1]"
    by (rule progress_run_complete(1) [OF front final])
  have "sorted (map status_percentage front)"
    using mono by (simp add: sorted_append)
  then have "sorted (map (\<lambda>s. status_percentage s / 100) front)"
    by (induction front) (auto simp: divide_right_mono)
  moreover have "\<forall>s\<in>set front. status_percentage s / 100 \<le> 1"
    using range by auto
  ultimately have srt: "sorted (map downloadProgress ?run)"
    unfolding pub by (auto simp: sorted_append)
  have "?run \<noteq> []"
    by (simp add: progress_run_Nil_iff)
  then have "downloadProgress (last ?run) = last (map downloadProgress ?run)"
    by (simp add: last_map)
  then have lst: "downloadProgress (last ?run) = 1"
    unfolding pub by simp
  show ?thesis
    using pub srt lst progress_run_complete(2,3) [OF front final, of pack st] by simp
qed

theorem onProgress_published_witness:
  "map downloadProgress
     (progress_run sample_pack
        (map (\<lambda>p. \<lparr>status_state = 2, status_percentage = p\<rparr>) [10, 45, 45, 90]
           @ [\<lparr>status_state = 3, status_percentage = 100\<rparr>])
        downloading_state)
     = [1 / 10, 9 / 20, 9 / 20, 9 / 10, 1]
   \<and> alerts (last (progress_run sample_pack
        (map (\<lambda>p. \<lparr>status_state = 2, status_percentage = p\<rparr>) [10, 45, 45, 90]
           @ [\<lparr>status_state = 3, status_percentage = 100\<rparr>])
        downloading_state))
     = [(''Download Complete'',
         ''Region '' @ [CHR 0x22] @ ''Region @ 10:30:00 AM'' @ [CHR 0x22]
           @ '' downloaded successfully.'')]
   \<and> map downloadProgress
        (progress_run unnamed_pack [\<lparr>status_state = 3, status_percentage = 100\<rparr>]
           downloading_state)
     = [1]
   \<and> alerts (last (progress_run unnamed_pack
        [\<lparr>status_state = 3, status_percentage = 100\<rparr>] downloading_state))
     = [(''Download Complete'',
         ''Region '' @ [CHR 0x22] @ ''offline-pack-1700000000050'' @ [CHR 0x22]
           @ '' downloaded successfully.'')]"
proof -
  have named: "get_opt (info_metadata sample_pack) ''name'' = JStr ''Region @ 10:30:00 AM''"
    by (simp add: sample_pack_def get_opt_def)
  have unnamed: "get_opt (info_metadata unnamed_pack) ''name'' = JUndefined"
      "info_name unnamed_pack = ''offline-pack-1700000000050''"
    by (simp_all add: unnamed_pack_def get_opt_def)
  have first: "map downloadProgress
     (progress_run sample_pack
        (map (\<lambda>p. \<lparr>status_state = 2, status_percentage = p\<rparr>) [10, 45, 45, 90]
           @ [\<lparr>status_state = 3, status_percentage = 100\<rparr>])
        downloading_state)
     = [1 / 10, 9 / 20, 9 / 20, 9 / 10, 1]
   \<and> alerts (last (progress_run sample_pack
        (map (\<lambda>p. \<lparr>status_state = 2, status_percentage = p\<rparr>) [10, 45, 45, 90]
           @ [\<lparr>status_state = 3, status_percentage = 100\<rparr>])
        downloading_state))
     = [(''Download Complete'',
         ''Region '' @ [CHR 0x22] @ ''Region @ 10:30:00 AM'' @ [CHR 0x22]
           @ '' downloaded successfully.'')]"
    using onProgress_published
      [of "map (\<lambda>p. \<lparr>status_state = 2, status_percentage = p\<rparr>) [10, 45, 45, 90]"
          "\<lparr>status_state = 3, status_percentage = 100\<rparr>" sample_pack downloading_state]
    by (simp add: named downloading_state_def)
  have second: "map downloadProgress
        (progress_run unnamed_pack [\<lparr>status_state = 3, status_percentage = 100\<rparr>]
           downloading_state)
     = [1]
   \<and> alerts (last (progress_run unnamed_pack
        [\<lparr>status_state = 3, status_percentage = 100\<rparr>] downloading_state))
     = [(''Download Complete'',
         ''Region '' @ [CHR 0x22] @ ''offline-pack-1700000000050'' @ [CHR 0x22]
           @ '' downloaded successfully.'')]"
    using onProgress_published
      [of "[]" "\<lparr>status_state = 3, status_percentage = 100\<rparr>" unnamed_pack downloading_state]
    by (simp add: unnamed downloading_state_def)
  show ?thesis
    using first second by blast
qed

text \<open>
  C8. In whatever state the error callback finds the component, it clears the
  download flag, sets the progress fraction to 0 and shows one "Download Error" dialog
  whose message ends with the error's own message; after it, a call of
  \<open>handleDownload\<close> by the handler of the next render, with the offline manager
  present, is no longer turned away.
\<close>

theorem onError_resets:
  "\<not> isDownloading (onError pack err st)
   \<and> downloadProgress (onError pack err st) = 0
   \<and> alerts (onError pack err st)
       = alerts st @ [(''Download Error'',
            ''Failed to download region ''
              @ (if info_name pack = [] then ''Unknown Pack'' else info_name pack)
              @ ''. '' @ err_message err)]
   \<and> createPack_calls (onError pack err st) = createPack_calls st
   \<and> (offlineManager env \<longrightarrow> fst (press_download env (onError pack err st)) \<noteq> DownloadPrevented)"
  by (auto simp: onError_def alert_def or_else_def press_download_def handleDownload_def
      handleDownload_try_def
      start_failed_def Let_def split: sum.splits option.splits)

theorem onError_resets_witness:
  "offlineManager sample_env
   \<and> onError sample_pack \<lparr>err_message = ''No space left''\<rparr> downloading_state
       = \<lparr>isDownloading = False, downloadProgress = 0,
          alerts = [(''Download Error'',
            ''Failed to download region offline-pack-1700000000000. No space left'')],
          createPack_calls = []\<rparr>
   \<and> fst (press_download sample_env
        (onError sample_pack \<lparr>err_message = ''No space left''\<rparr> downloading_state))
       = CreatePackIssued"
proof -
  have mgr: "offlineManager sample_env"
    by (simp add: sample_env_def)
  have st: "onError sample_pack \<lparr>err_message = ''No space left''\<rparr> downloading_state
       = \<lparr>isDownloading = False, downloadProgress = 0,
          alerts = [(''Download Error'',
            ''Failed to download region offline-pack-1700000000000. No space left'')],
          createPack_calls = []\<rparr>"
    by (simp add: onError_def alert_def or_else_def sample_pack_def downloading_state_def)
  have "fst (press_download sample_env
        (onError sample_pack \<lparr>err_message = ''No space left''\<rparr> downloading_state))
       \<noteq> DownloadPrevented"
    using onError_resets [of sample_pack "\<lparr>err_message = ''No space left''\<rparr>"
        downloading_state sample_env] mgr
    by blast
  moreover have "fst (press_download sample_env
        (onError sample_pack \<lparr>err_message = ''No space left''\<rparr> downloading_state))
       = CreatePackIssued"
    unfolding st
    by (simp add: press_download_def handleDownload_def handleDownload_try_def sample_env_def
        Let_def)
  ultimately show ?thesis
    using mgr st by simp
qed

section \<open>Decimal numerals and parseInt\<close>

lemma of_char_digit_char: "d < 10 \<Longrightarrow> (of_char (digit_char d) :: nat) = 48 + d"
  by (simp add: digit_char_def)

lemma digit_val_digit_char: "d < 10 \<Longrightarrow> digit_val 10 (digit_char d) = Some d"
  by (simp add: digit_val_def of_char_digit_char)

lemma digits_value_snoc:
  "digits_value r (xs @ [c])
     = int r * digits_value r xs + int (case digit_val r c of None \<Rightarrow> 0 | Some d \<Rightarrow> d)"
  by (simp add: digits_value_def)

lemma digits_value_digits: "0 \<le> n \<Longrightarrow> digits_value 10 (digits n) = n"
proof (induction n rule: digits.induct)
  case (1 n)
  show ?case
  proof (cases "n < 10")
    case True
    then have "nat n < 10" by simp
    with True 1(2) show ?thesis
      by (subst digits.simps) (simp add: digits_value_def digit_val_digit_char)
  next
    case False
    then have "digits_value 10 (digits (n div 10)) = n div 10"
      using 1 by simp
    moreover have "nat (n mod 10) < 10"
      by simp
    ultimately show ?thesis
      using False by (subst digits.simps) (simp add: digits_value_snoc digit_val_digit_char)
  qed
qed

lemma digits_value_dec: "digits_value 10 (dec n) = int n"
  by (simp add: dec_def digits_value_digits)

lemma decimal_digit_char: "d < 10 \<Longrightarrow> decimal (digit_char d)"
  by (simp add: decimal_def of_char_digit_char)

lemma decimal_facts:
  assumes "decimal c"
  shows "digit_val 10 c \<noteq> None" "\<not> is_space c" "c \<noteq> CHR ''-''" "c \<noteq> CHR ''+''"
    "c \<noteq> CHR ''x''" "c \<noteq> CHR ''X''"
proof -
  show "digit_val 10 c \<noteq> None"
    using assms by (auto simp: decimal_def digit_val_def Let_def)
  show "\<not> is_space c"
    using assms by (auto simp: decimal_def is_space_def)
  have "of_char c \<noteq> (45::nat)" "of_char c \<noteq> (43::nat)" "of_char c \<noteq> (120::nat)" "of_char c \<noteq> (88::nat)"
    using assms by (auto simp: decimal_def)
  then show "c \<noteq> CHR ''-''" "c \<noteq> CHR ''+''" "c \<noteq> CHR ''x''" "c \<noteq> CHR ''X''"
    by auto
qed

lemma digits_decimal: "0 \<le> n \<Longrightarrow> list_all decimal (digits n) \<and> digits n \<noteq> []"
proof (induction n rule: digits.induct)
  case (1 n)
  show ?case
  proof (cases "n < 10")
    case True
    then have "nat n < 10" by simp
    with True show ?thesis
      by (subst (1 2) digits.simps) (simp add: decimal_digit_char)
  next
    case False
    moreover have "nat (n mod 10) < 10"
      by simp
    ultimately show ?thesis
      using 1 by (subst (1 2) digits.simps) (simp add: decimal_digit_char)
  qed
qed

lemma dec_decimal: "list_all decimal (dec n) \<and> dec n \<noteq> []"
  by (simp add: dec_def digits_decimal)

lemma parseInt_decimal:
  assumes "list_all decimal s" "s \<noteq> []"
  shows "parseInt s = Some (digits_value 10 s)"
proof -
  obtain c cs where s: "s = c # cs" using assms(2) by (cases s) auto
  have c: "decimal c" and cs: "list_all decimal cs" using assms(1) s by auto
  have 1: "dropWhile is_space s = s" using decimal_facts(2) [OF c] s by simp
  have 2: "(take 1 s = ''-'') = False" "(take 1 s = ''+'') = False"
    using decimal_facts(3,4) [OF c] s by auto
  have 3: "(take 2 s = ''0x'') = False" "(take 2 s = ''0X'') = False"
  proof -
    show "(take 2 s = ''0x'') = False"
    proof (cases cs)
      case Nil then show ?thesis using s by simp
    next
      case (Cons d ds)
      then have "decimal d" using cs by simp
      from decimal_facts(5) [OF this] show ?thesis using s Cons by simp
    qed
    show "(take 2 s = ''0X'') = False"
    proof (cases cs)
      case Nil then show ?thesis using s by simp
    next
      case (Cons d ds)
      then have "decimal d" using cs by simp
      from decimal_facts(6) [OF this] show ?thesis using s Cons by simp
    qed
  qed
  have 4: "takeWhile (\<lambda>c. digit_val 10 c \<noteq> None) s = s"
    using assms(1) by (induction s) (auto dest: decimal_facts(1))
  have 5: "(s = []) = False" using assms(2) by simp
  show ?thesis
    by (simp only: parseInt_def Let_def 1 2 3 4 5 if_False simp_thms)
qed

lemma parseInt_dec: "parseInt (dec n) = Some (int n)"
  using parseInt_decimal [of "dec n"] dec_decimal [of n] by (simp add: digits_value_dec)

lemma parseInt_num_dec: "parseInt_num (dec n) = int n"
  by (simp add: parseInt_num_def parseInt_dec)

lemma dec_inj: "dec m = dec n \<Longrightarrow> m = n"
  by (metis digits_value_dec of_nat_eq_iff)

lemma upsert_same: "map_of ps k = Some v \<Longrightarrow> upsert ps k v = ps"
  by (induction ps) (auto split: if_splits)

lemma map_of_upsert: "map_of (upsert ps k x) k = Some x"
  by (induction ps) auto

lemma set_prop_same:
  assumes "get_prop v k = Some x" "x \<noteq> JUndefined" "k \<noteq> ''length''" "typeof v = ''object''"
  shows "set_prop v k x = Some v"
  using assms by (cases v) (auto simp: upsert_same split: option.splits)

lemma parse_reconstructed_eq:
  "parse_reconstructed parse json =
     (case parse json of
        None \<Rightarrow> None
      | Some v \<Rightarrow> if v = JUndefined \<or> v = JNull then None else Some v)"
proof (cases "parse json")
  case None
  then show ?thesis by (simp add: parse_reconstructed_def)
next
  case (Some v)
  have prim: "get_prop u k = Some JUndefined" if "typeof u \<noteq> ''object''" "u \<noteq> JUndefined"
    "k = ''name'' \<or> k = ''downloaded_at''" for u k
    using that by (cases u) (auto simp: is_index_def)
  have step: "Option.bind (get_prop w k) (\<lambda>x. if \<not> truthy x \<and> typeof x = t
                 then set_prop w k x else Some w) = Some w"
    if w: "w \<noteq> JUndefined" "w \<noteq> JNull" and k: "k = ''name'' \<or> k = ''downloaded_at''"
      and t: "t = ''string'' \<or> t = ''number''" for w k t
  proof (cases "typeof w = ''object''")
    case True
    then obtain x where x: "get_prop w k = Some x"
      using w by (cases w) auto
    show ?thesis
    proof (cases "\<not> truthy x \<and> typeof x = t")
      case True
      then have "x \<noteq> JUndefined" using t by auto
      moreover have "k \<noteq> ''length''" using k by auto
      ultimately have "set_prop w k x = Some w"
        using set_prop_same [OF x] \<open>typeof w = ''object''\<close> by simp
      with x True show ?thesis by simp
    next
      case False
      with x show ?thesis by auto
    qed
  next
    case False
    then have "get_prop w k = Some JUndefined"
      using prim w k by simp
    then show ?thesis using t by auto
  qed
  show ?thesis
  proof (cases "v = JUndefined \<or> v = JNull")
    case True
    then show ?thesis using Some by (auto simp: parse_reconstructed_def)
  next
    case False
    then have 1: "Option.bind (get_prop v ''name'') (\<lambda>x. if \<not> truthy x \<and> typeof x = ''string''
                 then set_prop v ''name'' x else Some v) = Some v"
      and 2: "Option.bind (get_prop v ''downloaded_at'') (\<lambda>x. if \<not> truthy x \<and> typeof x = ''number''
                 then set_prop v ''downloaded_at'' x else Some v) = Some v"
      using step [of v] by simp_all
    obtain n where n: "get_prop v ''name'' = Some n"
      using False by (cases v) auto
    from 1 n have 3: "(if \<not> truthy n \<and> typeof n = ''string'' then set_prop v ''name'' n else Some v) = Some v"
      by simp
    show ?thesis
      using Some False unfolding parse_reconstructed_def
      by (simp only: Option.bind.simps n 3 2 option.case if_False simp_thms)
  qed
qed

lemma get_opt_set_prop_name:
  assumes "typeof v = ''object''" "v \<noteq> JNull"
  shows "\<exists>w. set_prop v ''name'' x = Some w \<and> get_opt w ''name'' = x \<and> typeof w = ''object'' \<and> w \<noteq> JNull"
  using assms by (cases v) (auto simp: get_opt_def map_of_upsert)

lemma get_prop_object:
  assumes "typeof v = ''object''" "v \<noteq> JNull"
  shows "get_prop v k = Some (get_opt v k)"
  using assms by (cases v) (auto simp: get_opt_def)

text \<open>The tail of the metadata branch: an object keeps a truthy name and gets the label otherwise.\<close>

lemma ensure_name:
  assumes "typeof v = ''object''" "v \<noteq> JNull"
  shows "\<exists>w. Option.bind (get_prop v ''name'') (\<lambda>n. if \<not> truthy n then set_prop v ''name'' (JStr l) else Some v) = Some w
           \<and> get_opt w ''name'' = (if truthy (get_opt v ''name'') then get_opt v ''name'' else JStr l)
           \<and> (truthy (get_opt v ''name'') \<longrightarrow> w = v)"
  using get_opt_set_prop_name [OF assms, of "JStr l"]
  by (auto simp: get_prop_object [OF assms])

lemma named_object: "typeof (named l) = ''object''" "named l \<noteq> JNull" "get_opt (named l) ''name'' = JStr l"
  by (simp_all add: named_def get_opt_def)

lemma decode_metadata_field_name:
  "truthy (get_opt (decode_metadata_field parse pack) ''name'')"
proof -
  let ?id = "to_string (field pack ''name'')"
  have lbl: "truthy (JStr (''Pack: '' @ ?id))" by simp
  show ?thesis
  proof (cases "truthy (field pack ''metadata'')")
    case False
    then show ?thesis
      by (simp add: decode_metadata_field_def decode_metadata_try_def Let_def named_object)
  next
    case True
    define m1 where "m1 = (if typeof (field pack ''metadata'') = ''object'' \<and> field pack ''metadata'' \<noteq> JNull then field pack ''metadata''
                      else if typeof (field pack ''metadata'') = ''string''
                        then (case parse (to_string (field pack ''metadata'')) of
                                Some parsed \<Rightarrow> parsed
                              | None \<Rightarrow> named (''Invalid JSON: '' @ ?id))
                      else named (''Unknown type: '' @ ?id))"
    define m2 where "m2 = (if typeof m1 \<noteq> ''object'' \<or> m1 = JNull
                      then named (''Type error: '' @ ?id) else m1)"
    have obj: "typeof m2 = ''object''" "m2 \<noteq> JNull"
      by (auto simp: m2_def named_object)
    have tr: "decode_metadata_try parse pack =
        Option.bind (get_prop m2 ''name'') (\<lambda>n. if \<not> truthy n then set_prop m2 ''name'' (JStr (''Pack: '' @ ?id)) else Some m2)"
      unfolding decode_metadata_try_def Let_def m1_def m2_def using True by (simp only: if_True)
    from ensure_name [OF obj, of "''Pack: '' @ ?id"] obtain w where
      w: "decode_metadata_try parse pack = Some w"
        and n: "get_opt w ''name'' = (if truthy (get_opt m2 ''name'') then get_opt m2 ''name'' else JStr (''Pack: '' @ ?id))"
      unfolding tr by blast
    show ?thesis
      using n by (simp add: decode_metadata_field_def w)
  qed
qed

section \<open>The branches of decode\<close>

lemma decode_no_map:
  "\<not> has_character_map pack \<Longrightarrow> decode parse pack = decode_metadata_field parse pack"
  by (auto simp: decode_def has_character_map_def)

lemma decode_map:
  "has_character_map pack \<Longrightarrow> decode parse pack = decode_character_map parse pack"
  by (auto simp: decode_def has_character_map_def)

lemma decode_metadata_field_object:
  assumes "typeof m = ''object''" "m \<noteq> JNull" "field pack ''metadata'' = m"
  shows "get_opt (decode_metadata_field parse pack) ''name''
           = (if truthy (get_opt m ''name'') then get_opt m ''name''
              else JStr (''Pack: '' @ to_string (field pack ''name'')))"
    and "truthy (get_opt m ''name'') \<Longrightarrow> decode_metadata_field parse pack = m"
proof -
  let ?id = "to_string (field pack ''name'')"
  have t: "truthy m" using assms(1,2) by (cases m) auto
  have tr: "decode_metadata_try parse pack =
        Option.bind (get_prop m ''name'') (\<lambda>n. if \<not> truthy n then set_prop m ''name'' (JStr (''Pack: '' @ ?id)) else Some m)"
    unfolding decode_metadata_try_def Let_def assms(3) using t assms(1,2)
    by (simp only: if_True simp_thms if_False)
  from ensure_name [OF assms(1,2), of "''Pack: '' @ ?id"] obtain w where
      w: "decode_metadata_try parse pack = Some w"
        and n: "get_opt w ''name'' = (if truthy (get_opt m ''name'') then get_opt m ''name'' else JStr (''Pack: '' @ ?id))"
        and e: "truthy (get_opt m ''name'') \<longrightarrow> w = m"
    unfolding tr by blast
  show "get_opt (decode_metadata_field parse pack) ''name''
           = (if truthy (get_opt m ''name'') then get_opt m ''name''
              else JStr (''Pack: '' @ to_string (field pack ''name'')))"
    using n by (simp add: decode_metadata_field_def w)
  show "truthy (get_opt m ''name'') \<Longrightarrow> decode_metadata_field parse pack = m"
    using e by (simp add: decode_metadata_field_def w)
qed

lemma decode_metadata_field_string:
  assumes "field pack ''metadata'' = JStr s" "s \<noteq> []"
  shows "parse s = None \<Longrightarrow>
           decode_metadata_field parse pack = named (''Invalid JSON: '' @ to_string (field pack ''name''))"
    and "parse s = Some v \<Longrightarrow> typeof v = ''object'' \<Longrightarrow> v \<noteq> JNull \<Longrightarrow>
           get_opt (decode_metadata_field parse pack) ''name''
             = (if truthy (get_opt v ''name'') then get_opt v ''name''
                else JStr (''Pack: '' @ to_string (field pack ''name'')))"
    and "parse s = Some v \<Longrightarrow> typeof v = ''object'' \<Longrightarrow> v \<noteq> JNull \<Longrightarrow>
           truthy (get_opt v ''name'') \<Longrightarrow> decode_metadata_field parse pack = v"
proof -
  let ?id = "to_string (field pack ''name'')"
  show "decode_metadata_field parse pack = named (''Invalid JSON: '' @ ?id)" if "parse s = None"
    using that assms
    by (simp add: decode_metadata_field_def decode_metadata_try_def Let_def named_object)
      (simp add: named_def)
  have tr: "decode_metadata_try parse pack =
        Option.bind (get_prop v ''name'') (\<lambda>n. if \<not> truthy n then set_prop v ''name'' (JStr (''Pack: '' @ ?id)) else Some v)"
    if "parse s = Some v" "typeof v = ''object''" "v \<noteq> JNull"
    using that assms by (simp add: decode_metadata_try_def Let_def)
  {
    assume v: "parse s = Some v" "typeof v = ''object''" "v \<noteq> JNull"
    from ensure_name [OF v(2,3), of "''Pack: '' @ ?id"] obtain w where
      w: "decode_metadata_try parse pack = Some w"
        and n: "get_opt w ''name'' = (if truthy (get_opt v ''name'') then get_opt v ''name'' else JStr (''Pack: '' @ ?id))"
        and e: "truthy (get_opt v ''name'') \<longrightarrow> w = v"
      unfolding tr [OF v] by blast
    show "get_opt (decode_metadata_field parse pack) ''name''
             = (if truthy (get_opt v ''name'') then get_opt v ''name''
                else JStr (''Pack: '' @ to_string (field pack ''name'')))"
      using n by (simp add: decode_metadata_field_def w)
    show "truthy (get_opt v ''name'') \<Longrightarrow> decode_metadata_field parse pack = v"
      using e by (simp add: decode_metadata_field_def w)
  }
qed

lemma decode_metadata_other:
  assumes "truthy (field pack ''metadata'')" "typeof (field pack ''metadata'') \<noteq> ''object''"
    "typeof (field pack ''metadata'') \<noteq> ''string''"
  shows "decode_metadata_field parse pack
           = named (''Unknown type: '' @ to_string (field pack ''name''))"
  using assms
  by (simp add: decode_metadata_field_def decode_metadata_try_def Let_def named_object)
    (simp add: named_def)

lemma decode_metadata_not_object:
  assumes "field pack ''metadata'' = JStr s" "s \<noteq> []" "parse s = Some v"
    "typeof v \<noteq> ''object'' \<or> v = JNull"
  shows "decode_metadata_field parse pack
           = named (''Type error: '' @ to_string (field pack ''name''))"
proof -
  let ?l = "named (''Type error: '' @ to_string (field pack ''name''))"
  have tr: "decode_metadata_try parse pack =
        Option.bind (get_prop ?l ''name'')
          (\<lambda>n. if \<not> truthy n
               then set_prop ?l ''name'' (JStr (''Pack: '' @ to_string (field pack ''name'')))
               else Some ?l)"
    using assms by (auto simp: decode_metadata_try_def Let_def)
  have "decode_metadata_try parse pack = Some ?l"
    unfolding tr by (simp add: named_def)
  then show ?thesis
    by (simp add: decode_metadata_field_def)
qed

lemma decode_character_map_failed:
  assumes "parse (reconstructedJson (field pack ''_metadata'')) \<in> {None, Some JNull, Some JUndefined}"
  shows "decode_character_map parse pack = recover_from_map pack (field pack ''_metadata'')"
  using assms by (auto simp: decode_character_map_def Let_def parse_reconstructed_eq)

section \<open>Sizes\<close>

lemma truthy_serialize: "truthy v \<Longrightarrow> serialize v \<noteq> None"
  by (cases v) auto

lemma estimatedSize_eq:
  "estimatedSize pack =
     Some (if truthy (field pack ''_metadata'')
           then map_option (\<lambda>str. 10240 + 2 * int (length str)) (JSON_stringify (field pack ''_metadata''))
           else None)"
  using truthy_serialize [of "field pack ''_metadata''"]
  by (auto simp: estimatedSize_def JSON_stringify_def split: option.splits)

section \<open>Character maps\<close>

lemma filter_inj_distinct:
  assumes "distinct xs" "inj_on f (set xs)" "k \<in> set xs"
  shows "filter (\<lambda>x. f k = f x) xs = [k]"
  using assms
proof (induction xs)
  case Nil
  then show ?case by simp
next
  case (Cons a xs)
  show ?case
  proof (cases "a = k")
    case True
    have "filter (\<lambda>x. f k = f x) xs = []"
      using Cons.prems True by (auto simp: filter_empty_conv inj_on_def)
    with True show ?thesis by simp
  next
    case False
    then have "k \<in> set xs" using Cons.prems by simp
    moreover have "f k \<noteq> f a"
      using Cons.prems False by (auto simp: inj_on_def)
    ultimately show ?thesis
      using Cons by (simp add: inj_on_def)
  qed
qed

lemma map_fst_scatter: "map fst (scatter s) = map dec [0..<length s]"
  by (simp add: scatter_def)

lemma distinct_dec_upt: "distinct (map dec [0..<n])"
  by (simp add: distinct_map inj_on_def dec_inj)

lemma sort_decimal_keys:
  assumes "mset ks = mset (map dec [0..<n])"
  shows "sort_key parseInt_num ks = map dec [0..<n]"
proof -
  have set_ks: "set ks = set (map dec [0..<n])"
    using assms by (rule mset_eq_setD)
  have dist: "distinct ks"
    using assms distinct_dec_upt [of n] by (metis mset_eq_imp_distinct_iff)
  have inj: "inj_on parseInt_num (set (map dec [0..<n]))"
    by (auto simp: inj_on_def parseInt_num_dec)
  show "sort_key parseInt_num ks = map dec [0..<n]"
  proof (rule properties_for_sort_key)
    show "mset (map dec [0..<n]) = mset ks"
      using assms by simp
    show "filter (\<lambda>x. parseInt_num k = parseInt_num x) (map dec [0..<n])
            = filter (\<lambda>x. parseInt_num k = parseInt_num x) ks"
      if "k \<in> set (map dec [0..<n])" for k
      using filter_inj_distinct [OF distinct_dec_upt inj that]
        filter_inj_distinct [OF dist, of parseInt_num k] inj that set_ks
      by simp
    have "map parseInt_num (map dec [0..<n]) = map int [0..<n]"
      by (simp add: parseInt_num_dec)
    then show "sorted (map parseInt_num (map dec [0..<n]))"
      by (simp add: sorted_map strict_sorted_iff[symmetric] sorted_wrt_iff_nth_less)
  qed
qed

lemma map_of_unique:
  assumes "(k, v) \<in> set m" "\<And>v'. (k, v') \<in> set m \<Longrightarrow> v' = v"
  shows "map_of m k = Some v"
proof -
  have "k \<in> fst ` set m" using assms(1) by force
  then obtain v' where "map_of m k = Some v'"
    by (metis domD dom_map_of_conv_image_fst)
  moreover from this have "(k, v') \<in> set m" by (rule map_of_SomeD)
  ultimately show ?thesis using assms(2) by simp
qed

lemma character_map:
  assumes m: "mset m = mset (scatter s @ extra)"
    and extra: "\<forall>p\<in>set extra. parseInt (fst p) = None"
  shows "numericKeys (JObj m) = map dec [0..<length s]"
    and "\<And>i. i < length s \<Longrightarrow> get_opt (JObj m) (dec i) = JStr [s ! i]"
    and "reconstructedJson (JObj m) = s"
proof -
  have "mset (filter (\<lambda>key. parseInt key \<noteq> None) (map fst m))
          = filter_mset (\<lambda>key. parseInt key \<noteq> None) (image_mset fst (mset m))"
    by simp
  also have "\<dots> = filter_mset (\<lambda>key. parseInt key \<noteq> None) (mset (map fst (scatter s @ extra)))"
    by (simp add: m)
  also have "\<dots> = mset (filter (\<lambda>key. parseInt key \<noteq> None) (map dec [0..<length s]))
                   + mset (filter (\<lambda>key. parseInt key \<noteq> None) (map fst extra))"
    by (simp add: map_fst_scatter)
  also have "filter (\<lambda>key. parseInt key \<noteq> None) (map dec [0..<length s]) = map dec [0..<length s]"
    by (auto simp: filter_id_conv parseInt_dec)
  also have "filter (\<lambda>key. parseInt key \<noteq> None) (map fst extra) = []"
    using extra by (auto simp: filter_empty_conv)
  finally have k: "mset (filter (\<lambda>key. parseInt key \<noteq> None) (map fst m)) = mset (map dec [0..<length s])"
    by simp
  show keys: "numericKeys (JObj m) = map dec [0..<length s]"
    unfolding numericKeys_def object_keys.simps by (rule sort_decimal_keys [OF k])
  have set_m: "set m = set (scatter s) \<union> set extra"
    using mset_eq_setD [OF m] by simp
  show val: "get_opt (JObj m) (dec i) = JStr [s ! i]" if "i < length s" for i
  proof -
    have in_scatter: "(dec i, JStr [s ! i]) \<in> set (scatter s)"
      using that by (auto simp: scatter_def set_zip intro!: exI [of _ i])
    have "v' = JStr [s ! i]" if "(dec i, v') \<in> set m" for v'
    proof -
      have "(dec i, v') \<notin> set extra"
        using extra by (auto simp: parseInt_dec)
      then have "(dec i, v') \<in> set (scatter s)"
        using that set_m by simp
      then obtain j where "j < length s" "dec j = dec i" "v' = JStr [s ! j]"
        by (auto simp: scatter_def set_zip)
      then show ?thesis
        using dec_inj by auto
    qed
    then have "map_of m (dec i) = Some (JStr [s ! i])"
      using in_scatter set_m by (intro map_of_unique) auto
    then show ?thesis
      by (simp add: get_opt_def)
  qed
  have vals: "map (\<lambda>key. to_string (get_opt (JObj m) key)) (map dec [0..<length s])
          = map (\<lambda>i. [s ! i]) [0..<length s]"
    using val by simp
  have "reconstructedJson (JObj m) = concat (map (\<lambda>i. [s ! i]) [0..<length s])"
    by (simp only: reconstructedJson_def keys vals)
  also have "\<dots> = map (\<lambda>i. s ! i) [0..<length s]"
    by (induction "[0..<length s]") (simp_all add: concat_map_singleton)
  also have "\<dots> = s"
    by (rule map_nth)
  finally show "reconstructedJson (JObj m) = s" .
qed

lemma typeof_string: "typeof v = ''string'' \<Longrightarrow> \<exists>s. v = JStr s"
  by (cases v) auto

lemma join_truthy_strings:
  assumes "\<forall>i\<in>set js. typeof (get_opt md (dec i)) = ''string'' \<or> get_opt md (dec i) = JUndefined"
  shows "concat (map to_string (filter truthy (map (\<lambda>i. get_opt md (dec i)) js)))
           = concat (map (\<lambda>i. case get_opt md (dec i) of JStr s \<Rightarrow> s | _ \<Rightarrow> []) js)"
  using assms
proof (induction js)
  case Nil
  then show ?case by simp
next
  case (Cons j js)
  then consider s where "get_opt md (dec j) = JStr s" | "get_opt md (dec j) = JUndefined"
    using typeof_string [of "get_opt md (dec j)"] by auto
  then show ?case
    using Cons by cases auto
qed

lemma parseInt_empty: "parseInt [] = None"
  by (simp add: parseInt_def)

lemma recover_timestamp:
  assumes name: "truthy (get_opt md ''name'')"
    and strings: "\<forall>i\<in>set [46..<59]. typeof (get_opt md (dec i)) = ''string'' \<or> get_opt md (dec i) = JUndefined"
  shows "recover_from_map pack md =
           (if length (numericKeys md) > 45
            then (case parseInt (chars_46_58 md) of
                    None \<Rightarrow> JObj [(''name'', get_opt md ''name'')]
                  | Some timestamp \<Rightarrow> JObj [(''name'', get_opt md ''name''),
                                              (''downloaded_at'', JNum timestamp)])
            else JObj [(''name'', get_opt md ''name'')])"
proof -
  let ?tc = "filter truthy (map (\<lambda>i. get_opt md (dec i)) [46..<59])"
  have j: "concat (map to_string ?tc) = chars_46_58 md"
    unfolding chars_46_58_def using strings by (intro join_truthy_strings) simp
  have e: "parseInt (chars_46_58 md) = None" if "?tc = []"
    using j that by (simp add: parseInt_empty)
  show ?thesis
  proof (cases "?tc = []")
    case True
    then show ?thesis
      using name e by (simp add: recover_from_map_def Let_def)
  next
    case False
    then show ?thesis
      using name j by (simp add: recover_from_map_def Let_def)
  qed
qed

lemma map_of_scatter_other: "parseInt k = None \<Longrightarrow> map_of (scatter s) k = None"
proof -
  assume "parseInt k = None"
  then have "k \<notin> set (map dec [0..<length s])"
    by (auto simp: parseInt_dec)
  then show ?thesis
    by (simp add: map_of_eq_None_iff map_fst_scatter [symmetric] del: map_map)
qed

lemma map_nth_upt: "b \<le> length s \<Longrightarrow> map (\<lambda>i. s ! i) [a..<b] = take (b - a) (drop a s)"
  by (intro nth_equalityI) auto

lemma concat_singletons: "concat (map (\<lambda>i. [f i]) js) = map f js"
  by (induction js) simp_all

lemma character_map_chars:
  assumes m: "mset m = mset (scatter s @ extra)"
    and extra: "\<forall>p\<in>set extra. parseInt (fst p) = None"
    and len: "59 \<le> length s"
  shows "chars_46_58 (JObj m) = take 13 (drop 46 s)"
proof -
  have "map (\<lambda>i. case get_opt (JObj m) (dec i) of JStr s \<Rightarrow> s | _ \<Rightarrow> []) [46..<59]
          = map (\<lambda>i. [s ! i]) [46..<59]"
    using character_map(2) [OF m extra] len by simp
  then have "chars_46_58 (JObj m) = concat (map (\<lambda>i. [s ! i]) [46..<59])"
    by (simp only: chars_46_58_def)
  also have "\<dots> = map (\<lambda>i. s ! i) [46..<59]"
    by (rule concat_singletons)
  also have "\<dots> = take (59 - 46) (drop 46 s)"
    using len by (rule map_nth_upt)
  finally show ?thesis by simp
qed


section \<open>Properties of the metadata decoder\<close>

text \<open>
  C1. The claim is that \<open>decode\<close> always returns a metadata with a non-empty display
  name. On the pack \<open>brace_pack\<close>, whose \<open>_metadata\<close> is the character map of the
  text \<open>{}\<close>, the code takes the character-by-character branch, the reconstructed
  text parses, and the metadata returned is the empty object: it has no name. The
  branch for the \<open>metadata\<close> property adds the label \<open>Pack: ...\<close> in this situation
  (lemma \<open>decode_metadata_field_name\<close>); this branch does not.
\<close>

theorem decode_character_map_nameless:
  "has_character_map brace_pack
   \<and> reconstructedJson (field brace_pack ''_metadata'') = ''{}''
   \<and> decode JSON_parse brace_pack = JObj []
   \<and> displayName (decode JSON_parse brace_pack) = JUndefined"
  by code_simp

text \<open>
  C6, as amended. The label \<open>Pack: \<close> followed by the pack's identifier is the display
  name in these cases: the pack has no character map and its \<open>metadata\<close> is absent
  or otherwise falsy; or is an object without a truthy name; or is a string that
  parses to an object without a truthy name. For a pack with a character map whose
  text does not parse (or parses to \<open>null\<close>) and that has no truthy \<open>name\<close> of its
  own, the label is \<open>Pack: \<close> followed by the identifier, or by \<open>Unknown\<close> when the
  identifier is falsy. The other failures to recover a name, in a pack without a
  character map, have labels of their own: \<open>Invalid JSON: \<close> followed by the
  identifier for a string that does not parse, \<open>Unknown type: \<close> followed by it for
  a truthy metadata that is neither an object nor a string, and \<open>Type error: \<close>
  followed by it for a string that parses to a value that is not an object.
\<close>

theorem fallback_label:
  "(\<not> has_character_map pack \<and> \<not> truthy (field pack ''metadata'')
      \<longrightarrow> decode parse pack = named (''Pack: '' @ to_string (field pack ''name'')))
   \<and> (\<not> has_character_map pack \<and> typeof (field pack ''metadata'') = ''object''
        \<and> field pack ''metadata'' \<noteq> JNull \<and> \<not> truthy (get_opt (field pack ''metadata'') ''name'')
      \<longrightarrow> displayName (decode parse pack) = JStr (''Pack: '' @ to_string (field pack ''name'')))
   \<and> (\<not> has_character_map pack \<and> field pack ''metadata'' = JStr s \<and> s \<noteq> []
        \<and> parse s = Some v \<and> typeof v = ''object'' \<and> v \<noteq> JNull \<and> \<not> truthy (get_opt v ''name'')
      \<longrightarrow> displayName (decode parse pack) = JStr (''Pack: '' @ to_string (field pack ''name'')))
   \<and> (has_character_map pack
        \<and> parse (reconstructedJson (field pack ''_metadata'')) \<in> {None, Some JNull}
        \<and> \<not> truthy (get_opt (field pack ''_metadata'') ''name'')
      \<longrightarrow> decode parse pack
            = named (''Pack: '' @ to_string (or_else (field pack ''name'') (JStr ''Unknown''))))
   \<and> (\<not> has_character_map pack \<and> field pack ''metadata'' = JStr s \<and> s \<noteq> []
        \<and> parse s = None
      \<longrightarrow> decode parse pack = named (''Invalid JSON: '' @ to_string (field pack ''name'')))
   \<and> (\<not> has_character_map pack \<and> truthy (field pack ''metadata'')
        \<and> typeof (field pack ''metadata'') \<noteq> ''object''
        \<and> typeof (field pack ''metadata'') \<noteq> ''string''
      \<longrightarrow> decode parse pack = named (''Unknown type: '' @ to_string (field pack ''name'')))
   \<and> (\<not> has_character_map pack \<and> field pack ''metadata'' = JStr s \<and> s \<noteq> []
        \<and> parse s = Some v \<and> (typeof v \<noteq> ''object'' \<or> v = JNull)
      \<longrightarrow> decode parse pack = named (''Type error: '' @ to_string (field pack ''name'')))"
proof (intro conjI impI)
  assume "\<not> has_character_map pack \<and> \<not> truthy (field pack ''metadata'')"
  then show "decode parse pack = named (''Pack: '' @ to_string (field pack ''name''))"
    by (simp add: decode_no_map decode_metadata_field_def decode_metadata_try_def Let_def)
next
  assume a: "\<not> has_character_map pack \<and> typeof (field pack ''metadata'') = ''object''
        \<and> field pack ''metadata'' \<noteq> JNull \<and> \<not> truthy (get_opt (field pack ''metadata'') ''name'')"
  then show "displayName (decode parse pack) = JStr (''Pack: '' @ to_string (field pack ''name''))"
    using decode_metadata_field_object(1) [of "field pack ''metadata''" pack parse]
    by (simp add: decode_no_map displayName_def)
next
  assume a: "\<not> has_character_map pack \<and> field pack ''metadata'' = JStr s \<and> s \<noteq> []
        \<and> parse s = Some v \<and> typeof v = ''object'' \<and> v \<noteq> JNull \<and> \<not> truthy (get_opt v ''name'')"
  then show "displayName (decode parse pack) = JStr (''Pack: '' @ to_string (field pack ''name''))"
    using decode_metadata_field_string(2) [of pack s parse v]
    by (simp add: decode_no_map displayName_def)
next
  assume a: "has_character_map pack
        \<and> parse (reconstructedJson (field pack ''_metadata'')) \<in> {None, Some JNull}
        \<and> \<not> truthy (get_opt (field pack ''_metadata'') ''name'')"
  then have "decode parse pack = recover_from_map pack (field pack ''_metadata'')"
    using decode_character_map_failed [of parse pack] by (auto simp: decode_map)
  with a show "decode parse pack
            = named (''Pack: '' @ to_string (or_else (field pack ''name'') (JStr ''Unknown'')))"
    by (simp add: recover_from_map_def)
next
  assume a: "\<not> has_character_map pack \<and> field pack ''metadata'' = JStr s \<and> s \<noteq> []
        \<and> parse s = None"
  then show "decode parse pack = named (''Invalid JSON: '' @ to_string (field pack ''name''))"
    using decode_metadata_field_string(1) [of pack s parse] by (simp add: decode_no_map)
next
  assume a: "\<not> has_character_map pack \<and> truthy (field pack ''metadata'')
        \<and> typeof (field pack ''metadata'') \<noteq> ''object''
        \<and> typeof (field pack ''metadata'') \<noteq> ''string''"
  then show "decode parse pack = named (''Unknown type: '' @ to_string (field pack ''name''))"
    by (simp add: decode_no_map decode_metadata_other)
next
  assume a: "\<not> has_character_map pack \<and> field pack ''metadata'' = JStr s \<and> s \<noteq> []
        \<and> parse s = Some v \<and> (typeof v \<noteq> ''object'' \<or> v = JNull)"
  then show "decode parse pack = named (''Type error: '' @ to_string (field pack ''name''))"
    using decode_metadata_not_object [of pack s parse v] by (simp add: decode_no_map)
qed

theorem fallback_label_witness:
  "decode JSON_parse bare_pack = named ''Pack: offline-pack-4''
   \<and> displayName (decode JSON_parse nameless_object_pack) = JStr ''Pack: offline-pack-5''
   \<and> displayName (decode JSON_parse nameless_string_pack) = JStr ''Pack: offline-pack-6''
   \<and> decode JSON_parse broken_map_pack = named ''Pack: offline-pack-7''
   \<and> decode JSON_parse torn_pack = named ''Invalid JSON: offline-pack-13''
   \<and> decode JSON_parse number_pack = named ''Unknown type: offline-pack-14''
   \<and> decode JSON_parse numeral_string_pack = named ''Type error: offline-pack-15''"
proof -
  have a: "\<not> has_character_map bare_pack \<and> \<not> truthy (field bare_pack ''metadata'')"
    by code_simp
  have a': "to_string (field bare_pack ''name'') = ''offline-pack-4''"
    by code_simp
  have b: "\<not> has_character_map nameless_object_pack
      \<and> typeof (field nameless_object_pack ''metadata'') = ''object''
      \<and> field nameless_object_pack ''metadata'' \<noteq> JNull
      \<and> \<not> truthy (get_opt (field nameless_object_pack ''metadata'') ''name'')"
    by code_simp
  have b': "to_string (field nameless_object_pack ''name'') = ''offline-pack-5''"
    by code_simp
  have c: "\<not> has_character_map nameless_string_pack
      \<and> field nameless_string_pack ''metadata'' = JStr ''{}'' \<and> ''{}'' \<noteq> []
      \<and> JSON_parse ''{}'' = Some (JObj []) \<and> typeof (JObj []) = ''object'' \<and> JObj [] \<noteq> JNull
      \<and> \<not> truthy (get_opt (JObj []) ''name'')"
    by code_simp
  have c': "to_string (field nameless_string_pack ''name'') = ''offline-pack-6''"
    by code_simp
  have d: "has_character_map broken_map_pack
      \<and> JSON_parse (reconstructedJson (field broken_map_pack ''_metadata'')) = None
      \<and> \<not> truthy (get_opt (field broken_map_pack ''_metadata'') ''name'')"
    by code_simp
  have d': "to_string (or_else (field broken_map_pack ''name'') (JStr ''Unknown'')) = ''offline-pack-7''"
    by code_simp
  have e: "\<not> has_character_map torn_pack \<and> field torn_pack ''metadata'' = JStr ''[1, 2''
      \<and> ''[1, 2'' \<noteq> [] \<and> JSON_parse ''[1, 2'' = None"
    by code_simp
  have e': "to_string (field torn_pack ''name'') = ''offline-pack-13''"
    by code_simp
  have f: "\<not> has_character_map number_pack \<and> truthy (field number_pack ''metadata'')
      \<and> typeof (field number_pack ''metadata'') \<noteq> ''object''
      \<and> typeof (field number_pack ''metadata'') \<noteq> ''string''"
    by code_simp
  have f': "to_string (field number_pack ''name'') = ''offline-pack-14''"
    by code_simp
  have g: "\<not> has_character_map numeral_string_pack
      \<and> field numeral_string_pack ''metadata'' = JStr ''5'' \<and> ''5'' \<noteq> []
      \<and> JSON_parse ''5'' = Some (JNum 5) \<and> typeof (JNum 5) \<noteq> ''object''"
    by code_simp
  have g': "to_string (field numeral_string_pack ''name'') = ''offline-pack-15''"
    by code_simp
  have "decode JSON_parse bare_pack = named ''Pack: offline-pack-4''"
    using fallback_label [where pack = bare_pack and parse = JSON_parse] a a' by simp
  moreover have "displayName (decode JSON_parse nameless_object_pack) = JStr ''Pack: offline-pack-5''"
    using fallback_label [where pack = nameless_object_pack and parse = JSON_parse] b b' by simp
  moreover have "displayName (decode JSON_parse nameless_string_pack) = JStr ''Pack: offline-pack-6''"
    using fallback_label [where pack = nameless_string_pack and parse = JSON_parse
        and s = "''{}''" and v = "JObj []"] c c'
    by simp
  moreover have "decode JSON_parse broken_map_pack = named ''Pack: offline-pack-7''"
    using fallback_label [where pack = broken_map_pack and parse = JSON_parse] d d' by simp
  moreover have "decode JSON_parse torn_pack = named ''Invalid JSON: offline-pack-13''"
    using fallback_label [where pack = torn_pack and parse = JSON_parse and s = "''[1, 2''"] e e'
    by simp
  moreover have "decode JSON_parse number_pack = named ''Unknown type: offline-pack-14''"
    using fallback_label [where pack = number_pack and parse = JSON_parse] f f' by simp
  moreover have "decode JSON_parse numeral_string_pack = named ''Type error: offline-pack-15''"
    using fallback_label [where pack = numeral_string_pack and parse = JSON_parse
        and s = "''5''" and v = "JNum 5"] g g'
    by simp
  ultimately show ?thesis
    by blast
qed

text \<open>
  C6 as stated fails: for the pack \<open>garbled_pack\<close>, whose metadata string does not
  parse, no name is recovered and the label is \<open>Invalid JSON: \<close> followed by the
  identifier, not \<open>Pack: \<close> followed by it.
\<close>

theorem fallback_label_counterexample:
  "\<not> has_character_map garbled_pack
   \<and> JSON_parse ''not json'' = None
   \<and> displayName (decode JSON_parse garbled_pack) = JStr ''Invalid JSON: offline-pack-2''
   \<and> displayName (decode JSON_parse garbled_pack) \<noteq> JStr ''Pack: offline-pack-2''"
  by code_simp

text \<open>
  C7, as amended. For a pack without a character map whose \<open>metadata\<close> is a string
  that does not parse, \<open>decode\<close> returns the metadata whose only property is the name
  \<open>Invalid JSON: \<close> followed by the pack's identifier (and \<open>Pack: \<close> followed by it
  for the empty string): the label is made of the identifier, not of the string.
\<close>

theorem unparsable_string_label:
  "\<not> has_character_map pack \<and> field pack ''metadata'' = JStr s \<and> parse s = None
     \<longrightarrow> decode parse pack
           = named ((if s = [] then ''Pack: '' else ''Invalid JSON: '') @ to_string (field pack ''name''))"
proof (intro impI)
  assume a: "\<not> has_character_map pack \<and> field pack ''metadata'' = JStr s \<and> parse s = None"
  show "decode parse pack
           = named ((if s = [] then ''Pack: '' else ''Invalid JSON: '') @ to_string (field pack ''name''))"
  proof (cases "s = []")
    case True
    with a show ?thesis
      by (simp add: decode_no_map decode_metadata_field_def decode_metadata_try_def Let_def)
  next
    case False
    with a show ?thesis
      using decode_metadata_field_string(1) [of pack s parse] by (simp add: decode_no_map)
  qed
qed

theorem unparsable_string_label_witness:
  "\<not> has_character_map unparsable_pack
   \<and> field unparsable_pack ''metadata'' = JStr ''#%&*''
   \<and> JSON_parse ''#%&*'' = None
   \<and> decode JSON_parse unparsable_pack = named ''Invalid JSON: offline-pack-3''"
proof -
  have 1: "\<not> has_character_map unparsable_pack" by code_simp
  have 2: "field unparsable_pack ''metadata'' = JStr ''#%&*''" by code_simp
  have 3: "JSON_parse ''#%&*'' = None" by code_simp
  have 4: "to_string (field unparsable_pack ''name'') = ''offline-pack-3''" by code_simp
  show ?thesis
    using unparsable_string_label [of unparsable_pack "''#%&*''" JSON_parse] 1 2 3 4
    by simp
qed

text \<open>
  C7 as stated fails: the label returned for \<open>unparsable_pack\<close> does not contain the
  raw string \<open>#%&*\<close>, nor any character of it.
\<close>

theorem unparsable_string_label_counterexample:
  "JSON_parse ''#%&*'' = None
   \<and> displayName (decode JSON_parse unparsable_pack) = JStr ''Invalid JSON: offline-pack-3''
   \<and> \<not> str_includes ''Invalid JSON: offline-pack-3'' ''#%&*''
   \<and> list_all (\<lambda>c. c \<notin> set ''Invalid JSON: offline-pack-3'') ''#%&*''"
  by code_simp

section \<open>Properties of the size estimate and of fetching\<close>

text \<open>
  C5, as amended. For every raw pack record the callback of \<open>fetchPacks\<close> returns
  a pack view, and the size it attaches depends on \<open>pack._metadata\<close> alone: when that
  is truthy, the size is 10240 plus twice the length of \<open>JSON.stringify(pack._metadata)\<close>;
  otherwise it is \<open>null\<close>. It is never zero. The fields of the record that report a
  size are not consulted.
\<close>

theorem attached_size:
  "\<exists>r. formatPack parse pack = Some r
     \<and> op_metadata r = decode parse pack
     \<and> (truthy (field pack ''_metadata'')
          \<longrightarrow> (\<exists>str. JSON_stringify (field pack ''_metadata'') = Some str
                   \<and> op_size r = Some (10240 + 2 * int (length str))))
     \<and> (\<not> truthy (field pack ''_metadata'') \<longrightarrow> op_size r = None)
     \<and> op_size r \<noteq> Some 0"
  using truthy_serialize [of "field pack ''_metadata''"]
  by (auto simp: formatPack_def estimatedSize_eq Let_def JSON_stringify_def)

theorem attached_size_witness:
  "truthy (field brace_pack ''_metadata'')
   \<and> JSON_stringify (field brace_pack ''_metadata'')
        = Some (''{'' @ quote ''0'' @ '':'' @ quote ''{'' @ '','' @ quote ''1'' @ '':'' @ quote ''}'' @ ''}'')
   \<and> map_option op_size (formatPack JSON_parse brace_pack) = Some (Some 10274)
   \<and> \<not> truthy (field sized_pack ''_metadata'')
   \<and> map_option op_size (formatPack JSON_parse sized_pack) = Some None"
proof -
  have 1: "truthy (field brace_pack ''_metadata'')" by code_simp
  have 2: "JSON_stringify (field brace_pack ''_metadata'')
        = Some (''{'' @ quote ''0'' @ '':'' @ quote ''{'' @ '','' @ quote ''1'' @ '':'' @ quote ''}'' @ ''}'')"
    by code_simp
  have 3: "length (''{'' @ quote ''0'' @ '':'' @ quote ''{'' @ '','' @ quote ''1'' @ '':'' @ quote ''}'' @ ''}'') = 17"
    by code_simp
  have 4: "\<not> truthy (field sized_pack ''_metadata'')" by code_simp
  from attached_size [of JSON_parse brace_pack] 1 2 3
  have "map_option op_size (formatPack JSON_parse brace_pack) = Some (Some 10274)"
    by auto
  moreover from attached_size [of JSON_parse sized_pack] 4
  have "map_option op_size (formatPack JSON_parse sized_pack) = Some None"
    by auto
  ultimately show ?thesis
    using 1 2 4 by blast
qed

text \<open>
  C5 as stated fails twice. The record \<open>sized_pack\<close> reports its size in the field
  \<open>size\<close>, which \<open>inspectPackForSize\<close> finds, and yet the size attached to its view
  is \<open>null\<close>. The record \<open>brace_pack\<close> reports no size and has the character map of
  the text \<open>{}\<close>, of length 2: the size attached is 10274, which is 10240 plus twice
  the length 17 of the serialised map, not 10240 plus twice 2.
\<close>

theorem attached_size_counterexample:
  "inspectPackForSize sized_pack = JNum 52428800
   \<and> map_option op_size (formatPack JSON_parse sized_pack) = Some None
   \<and> reconstructedJson (field brace_pack ''_metadata'') = ''{}''
   \<and> map_option op_size (formatPack JSON_parse brace_pack) = Some (Some 10274)
   \<and> (10274 :: int) \<noteq> 10 * 1024 + 2 * int (length ''{}'')"
  by code_simp

text \<open>
  C9. When the call of \<open>getPacks\<close> is rejected, \<open>fetchPacks\<close> replaces the list of
  packs, whatever it was, by the empty list, shows one dialog titled \<open>Error\<close> whose
  message carries the message of the rejection, clears both loading flags, and has
  called \<open>getPacks\<close> exactly once.
\<close>

theorem fetchPacks_failure:
  "packs (fetchPacks parse True refreshing (Inl msg) st) = []
   \<and> shown (fetchPacks parse True refreshing (Inl msg) st)
       = shown st @ [(''Error'', ''Could not fetch offline packs. '' @ msg)]
   \<and> \<not> isLoading (fetchPacks parse True refreshing (Inl msg) st)
   \<and> \<not> isRefreshing (fetchPacks parse True refreshing (Inl msg) st)
   \<and> getPacks_calls (fetchPacks parse True refreshing (Inl msg) st) = Suc (getPacks_calls st)"
  by (simp add: fetchPacks_def fetch_failed_def Let_def)

theorem fetchPacks_failure_witness:
  "packs stale_state \<noteq> []
   \<and> packs (fetchPacks JSON_parse True True (Inl ''database is locked'') stale_state) = []
   \<and> shown (fetchPacks JSON_parse True True (Inl ''database is locked'') stale_state)
       = [(''Error'', ''Could not fetch offline packs. database is locked'')]
   \<and> getPacks_calls (fetchPacks JSON_parse True True (Inl ''database is locked'') stale_state) = 4"
  using fetchPacks_failure [of JSON_parse True "''database is locked''" stale_state]
  by (simp add: stale_state_def)

section \<open>Recovery of the time stamp\<close>

text \<open>
  C10. For a pack with a character map whose reconstructed text does not parse and
  that carries a truthy \<open>name\<close> of its own, where the values under the keys 46 to
  58 are strings (or absent): when the map has more than 45 numeric keys, the strings
  under the keys 46 to 58 are put in a row and given to \<open>parseInt\<close>, and the
  metadata is the name together with that number as \<open>downloaded_at\<close> whenever
  \<open>parseInt\<close> yields a number, and the name alone when it yields \<open>NaN\<close>; with
  45 numeric keys or fewer the metadata is the name alone.
\<close>

theorem timestamp_from_positions:
  assumes "has_character_map pack"
    and "parse (reconstructedJson (field pack ''_metadata'')) = None"
    and "truthy (get_opt (field pack ''_metadata'') ''name'')"
    and "\<forall>i\<in>set [46..<59]. typeof (get_opt (field pack ''_metadata'') (dec i)) = ''string''
                        \<or> get_opt (field pack ''_metadata'') (dec i) = JUndefined"
  shows "decode parse pack =
           (if length (numericKeys (field pack ''_metadata'')) > 45
            then (case parseInt (chars_46_58 (field pack ''_metadata'')) of
                    None \<Rightarrow> JObj [(''name'', get_opt (field pack ''_metadata'') ''name'')]
                  | Some timestamp \<Rightarrow>
                      JObj [(''name'', get_opt (field pack ''_metadata'') ''name''),
                            (''downloaded_at'', JNum timestamp)])
            else JObj [(''name'', get_opt (field pack ''_metadata'') ''name'')])"
proof -
  have "decode parse pack = recover_from_map pack (field pack ''_metadata'')"
    using assms(1,2) decode_character_map_failed [of parse pack] by (simp add: decode_map)
  then show ?thesis
    using recover_timestamp [OF assms(3,4)] by simp
qed


theorem timestamp_from_positions_witness:
  "has_character_map damaged_pack
   \<and> JSON_parse (reconstructedJson (field damaged_pack ''_metadata'')) = None
   \<and> length (numericKeys (field damaged_pack ''_metadata'')) = 60
   \<and> chars_46_58 (field damaged_pack ''_metadata'') = ''1700000000000''
   \<and> decode JSON_parse damaged_pack
       = JObj [(''name'', JStr ''Region @ 9:30:00 AM''), (''downloaded_at'', JNum 1700000000000)]
   \<and> length (numericKeys (field short_map_pack ''_metadata'')) = 1
   \<and> decode JSON_parse short_map_pack = JObj [(''name'', JStr ''Ridge'')]"
proof -
  let ?extra = "[(''name'', JStr ''Region @ 9:30:00 AM'')]"
  let ?m = "scatter damaged_blob @ ?extra"
  have md: "field damaged_pack ''_metadata'' = JObj ?m"
    by (simp add: damaged_pack_def field_def)
  have nan: "parseInt ''name'' = None" by code_simp
  have m: "mset ?m = mset (scatter damaged_blob @ ?extra)" by simp
  have extra: "\<forall>p\<in>set ?extra. parseInt (fst p) = None" using nan by simp
  have len: "length damaged_blob = 60" by code_simp
  have 1: "has_character_map damaged_pack"
    by (simp add: has_character_map_def md)
  have recon: "reconstructedJson (field damaged_pack ''_metadata'') = damaged_blob"
    unfolding md by (rule character_map(3) [OF m extra])
  have "JSON_parse damaged_blob = None" by code_simp
  then have 2: "JSON_parse (reconstructedJson (field damaged_pack ''_metadata'')) = None"
    by (simp only: recon)
  have 8: "get_opt (field damaged_pack ''_metadata'') ''name'' = JStr ''Region @ 9:30:00 AM''"
    unfolding md using map_of_scatter_other [OF nan, of damaged_blob]
    by (simp add: get_opt_def map_add_def)
  then have 3: "truthy (get_opt (field damaged_pack ''_metadata'') ''name'')" by simp
  have 4: "\<forall>i\<in>set [46..<59]. typeof (get_opt (field damaged_pack ''_metadata'') (dec i)) = ''string''
                        \<or> get_opt (field damaged_pack ''_metadata'') (dec i) = JUndefined"
    unfolding md using character_map(2) [OF m extra] len by simp
  have 5: "length (numericKeys (field damaged_pack ''_metadata'')) = 60"
    unfolding md using character_map(1) [OF m extra] len by simp
  have "take 13 (drop 46 damaged_blob) = ''1700000000000''" by code_simp
  then have 6: "chars_46_58 (field damaged_pack ''_metadata'') = ''1700000000000''"
    unfolding md using character_map_chars [OF m extra] len by simp
  have 7: "parseInt ''1700000000000'' = Some 1700000000000" by code_simp
  have a: "has_character_map short_map_pack" by code_simp
  have b: "JSON_parse (reconstructedJson (field short_map_pack ''_metadata'')) = None" by code_simp
  have c: "truthy (get_opt (field short_map_pack ''_metadata'') ''name'')" by code_simp
  have d: "\<forall>i\<in>set [46..<59]. typeof (get_opt (field short_map_pack ''_metadata'') (dec i)) = ''string''
                        \<or> get_opt (field short_map_pack ''_metadata'') (dec i) = JUndefined"
    by code_simp
  have e: "length (numericKeys (field short_map_pack ''_metadata'')) = 1" by code_simp
  have f: "get_opt (field short_map_pack ''_metadata'') ''name'' = JStr ''Ridge''" by code_simp
  have "decode JSON_parse damaged_pack
       = JObj [(''name'', JStr ''Region @ 9:30:00 AM''), (''downloaded_at'', JNum 1700000000000)]"
    using timestamp_from_positions [where pack = damaged_pack and parse = JSON_parse, OF 1 2 3 4] by (simp add: 5 6 7 8)
  moreover have "decode JSON_parse short_map_pack = JObj [(''name'', JStr ''Ridge'')]"
    using timestamp_from_positions [where pack = short_map_pack and parse = JSON_parse, OF a b c d] by (simp add: e f)
  ultimately show ?thesis
    using 1 2 5 6 e by blast
qed

section \<open>Reconstruction from a character map\<close>




end
